theory Spec2Isabelle
  imports Main "HOL-Library.AList"
begin

section \<open>Python values used by cryptobot.py\<close>

text \<open>
  The bot is one Python module, \<^verbatim>\<open>cryptobot.py\<close>. Its functions are embedded below under
  their own names (\<open>get_crypto_data\<close>, \<open>load_cache\<close>, \<open>save_cache\<close>, \<open>create_embed\<close>,
  \<open>on_message\<close>, \<open>update_crypto_prices\<close>). Everything the module does to the outside
  (HTTP request, Discord API call, file access) is a step on an explicit \<open>world\<close>; every
  exception is a value of type \<open>error\<close>.

  Strings are \<open>string\<close> with ASCII characters. Python's \<^verbatim>\<open>print\<close> calls only write to the
  console and are left out.
\<close>

subsection \<open>Exceptions\<close>

datatype error =
    IndexError | ValueError | TypeError | KeyError | OverflowError | AttributeError
  | JSONDecodeError | FileNotFoundError | OSError
  | RequestException
  | NotFound | Forbidden | HTTPException
  | CancelledError

text \<open>
  \<open>RequestException\<close> stands for \<^verbatim>\<open>requests.exceptions.RequestException\<close> and its
  subclasses (connection errors, timeouts, the \<^verbatim>\<open>HTTPError\<close> of \<^verbatim>\<open>raise_for_status\<close>);
  \<open>NotFound\<close>, \<open>Forbidden\<close> and \<open>HTTPException\<close> are the exceptions of discord.py, of
  which the refresh loop catches \<^verbatim>\<open>discord.NotFound\<close> only. \<^verbatim>\<open>except Exception\<close> catches
  every exception above but \<open>CancelledError\<close>, which derives from \<^verbatim>\<open>BaseException\<close>.
\<close>

definition is_Exception :: "error \<Rightarrow> bool" where
  "is_Exception e = (e \<noteq> CancelledError)"

subsection \<open>Floats\<close>

text \<open>
  A Python \<^verbatim>\<open>float\<close> is an IEEE 754 binary64 value. \<open>Finite s m e\<close> stands for
  \<open>(-1)\<^sup>s * m * 2\<^sup>e\<close> in the format's own normal form: \<open>2\<^sup>5\<^sup>2 \<le> m < 2\<^sup>5\<^sup>3\<close> and
  \<open>-1074 \<le> e \<le> 971\<close> for a normal number, \<open>m < 2\<^sup>5\<^sup>2\<close> and \<open>e = -1074\<close> for a subnormal
  number and for the two zeros.
\<close>

datatype pyfloat = Finite bool nat int | Inf bool | NaN

fun bit_length :: "nat \<Rightarrow> nat" where
  "bit_length n = (if n = 0 then 0 else Suc (bit_length (n div 2)))"

declare bit_length.simps [simp del]

text \<open>The integer nearest to \<open>p / q\<close>, a tie going to the even one (\<open>q > 0\<close>).\<close>

definition round_half_even :: "nat \<Rightarrow> nat \<Rightarrow> nat" where
  "round_half_even p q =
     (if 2 * (p mod q) < q then p div q
      else if q < 2 * (p mod q) then p div q + 1
      else if even (p div q) then p div q else p div q + 1)"

text \<open>\<open>p / (q * 2\<^sup>e)\<close> as a fraction of naturals.\<close>

definition scaled :: "nat \<Rightarrow> nat \<Rightarrow> int \<Rightarrow> nat \<times> nat" where
  "scaled p q e = (if 0 \<le> e then (p, q * 2 ^ nat e) else (p * 2 ^ nat (- e), q))"

text \<open>
  Rounding the rational \<open>(-1)\<^sup>s * p / q\<close> to the nearest binary64 value, ties to even:
  what the hardware multiplication and the conversions from text and from \<^verbatim>\<open>int\<close> do.
  A magnitude beyond the largest finite value rounds to infinity.
\<close>

definition first_exponent :: "nat \<Rightarrow> nat \<Rightarrow> int" where
  "first_exponent p q = int (bit_length p) - int (bit_length q) - 53"

text \<open>
  The exponent \<open>e\<close> of the result before rounding: \<open>p / (q * 2\<^sup>e)\<close> lies between \<open>2\<^sup>5\<^sup>2\<close>
  and \<open>2\<^sup>5\<^sup>3\<close>, unless that would take \<open>e\<close> below the least exponent, -1074.
\<close>

definition exponent :: "nat \<Rightarrow> nat \<Rightarrow> int" where
  "exponent p q =
     max (if 2 ^ 53 \<le> fst (scaled p q (first_exponent p q)) div snd (scaled p q (first_exponent p q))
          then first_exponent p q + 1 else first_exponent p q)
         (- 1074)"

text \<open>
  The rounded mantissa \<open>m\<close> with its exponent: a mantissa rounded up to \<open>2\<^sup>5\<^sup>3\<close> moves to
  the next exponent, and an exponent above 971 is an overflow.
\<close>

definition pack :: "bool \<Rightarrow> nat \<Rightarrow> int \<Rightarrow> pyfloat" where
  "pack s m e =
     (if m = 2 ^ 53
      then (if 971 < e + 1 then Inf s else Finite s (2 ^ 52) (e + 1))
      else (if 971 < e then Inf s else Finite s m e))"

definition round_to_double :: "bool \<Rightarrow> nat \<Rightarrow> nat \<Rightarrow> pyfloat" where
  "round_to_double s p q =
     (if p = 0 then Finite s 0 (- 1074)
      else pack s (round_half_even (fst (scaled p q (exponent p q))) (snd (scaled p q (exponent p q))))
             (exponent p q))"

text \<open>The float product \<^verbatim>\<open>x * y\<close>.\<close>

fun fmul :: "pyfloat \<Rightarrow> pyfloat \<Rightarrow> pyfloat" where
  "fmul NaN y = NaN"
| "fmul x NaN = NaN"
| "fmul (Inf s) (Inf t) = Inf (s \<noteq> t)"
| "fmul (Inf s) (Finite t n f) = (if n = 0 then NaN else Inf (s \<noteq> t))"
| "fmul (Finite s m e) (Inf t) = (if m = 0 then NaN else Inf (s \<noteq> t))"
| "fmul (Finite s m e) (Finite t n f) =
     round_to_double (s \<noteq> t) (fst (scaled (m * n) 1 (- (e + f)))) (snd (scaled (m * n) 1 (- (e + f))))"

definition float_one :: pyfloat where
  "float_one = Finite False (2 ^ 52) (- 52)"

subsection \<open>Text of numbers\<close>

definition digit_char :: "nat \<Rightarrow> char" where
  "digit_char d = ''0123456789'' ! d"

fun str_nat :: "nat \<Rightarrow> string" where
  "str_nat n = (if n < 10 then [digit_char n] else str_nat (n div 10) @ [digit_char (n mod 10)])"

declare str_nat.simps [simp del]

text \<open>\<^verbatim>\<open>str(i)\<close> of an \<^verbatim>\<open>int\<close>, as an f-string renders it.\<close>

definition str_int :: "int \<Rightarrow> string" where
  "str_int i = (if i < 0 then CHR ''-'' # str_nat (nat (- i)) else str_nat (nat i))"

definition sign_str :: "bool \<Rightarrow> string" where
  "sign_str s = (if s then ''-'' else '''')"

text \<open>
  \<^verbatim>\<open>f"{x:.2f}"\<close>: the value rounded correctly (ties to even, on the exact binary value)
  to two digits after the point; the sign is kept on a zero result; infinities and NaN
  have no digits.
\<close>

definition hundredths :: "nat \<Rightarrow> int \<Rightarrow> nat" where
  "hundredths m e = round_half_even (fst (scaled (m * 100) 1 (- e))) (snd (scaled (m * 100) 1 (- e)))"

fun format_2f :: "pyfloat \<Rightarrow> string" where
  "format_2f NaN = ''nan''"
| "format_2f (Inf s) = sign_str s @ ''inf''"
| "format_2f (Finite s m e) =
     sign_str s @ str_nat (hundredths m e div 100) @ ''.'' @
       [digit_char (hundredths m e mod 100 div 10), digit_char (hundredths m e mod 10)]"

subsection \<open>Parsing numbers\<close>

text \<open>
  Whitespace as \<^verbatim>\<open>str.split\<close> sees it (\<^verbatim>\<open>str.isspace\<close>: the separators 0x1C to 0x1F
  count), and whitespace as \<^verbatim>\<open>float\<close> and \<^verbatim>\<open>int\<close> strip it from the ends of their
  argument (tab, newline, vertical tab, form feed, carriage return and space only).
\<close>

definition is_space :: "char \<Rightarrow> bool" where
  "is_space c = (c \<in> set [CHR 0x09, CHR 0x0A, CHR 0x0B, CHR 0x0C, CHR 0x0D,
                           CHR 0x1C, CHR 0x1D, CHR 0x1E, CHR 0x1F, CHR 0x20])"

definition is_c_space :: "char \<Rightarrow> bool" where
  "is_c_space c = (c \<in> set [CHR 0x09, CHR 0x0A, CHR 0x0B, CHR 0x0C, CHR 0x0D, CHR 0x20])"

definition is_digit :: "char \<Rightarrow> bool" where
  "is_digit c = (c \<in> set ''0123456789'')"

definition digit_val :: "char \<Rightarrow> nat" where
  "digit_val c =
     (case map_of (zip ''0123456789'' [0, 1, 2, 3, 4, 5, 6, 7, 8, 9]) c of Some d \<Rightarrow> d | None \<Rightarrow> 0)"

definition nat_of_digits :: "string \<Rightarrow> nat" where
  "nat_of_digits ds = foldl (\<lambda>a c. 10 * a + digit_val c) 0 ds"

definition strip :: "string \<Rightarrow> string" where
  "strip s = rev (dropWhile is_c_space (rev (dropWhile is_c_space s)))"

text \<open>
  Underscores in a numeric literal: allowed only directly between two digits, and
  dropped. \<open>prev\<close> is the character before the current one.
\<close>

fun drop_underscores :: "char \<Rightarrow> string \<Rightarrow> string option" where
  "drop_underscores prev [] = (if prev = CHR ''_'' then None else Some [])"
| "drop_underscores prev (c # cs) =
     (if c = CHR ''_''
      then (if is_digit prev then drop_underscores c cs else None)
      else if prev = CHR ''_'' \<and> \<not> is_digit c then None
      else map_option ((#) c) (drop_underscores c cs))"

definition take_sign :: "string \<Rightarrow> bool \<times> string" where
  "take_sign s =
     (case s of
        [] \<Rightarrow> (False, [])
      | c # cs \<Rightarrow> if c = CHR ''-'' then (True, cs) else if c = CHR ''+'' then (False, cs) else (False, s))"

text \<open>\<^verbatim>\<open>int(s)\<close> for a string \<open>s\<close>, base ten.\<close>

definition py_int :: "string \<Rightarrow> error + int" where
  "py_int s =
     (case drop_underscores CHR '' '' (strip s) of
        None \<Rightarrow> Inl ValueError
      | Some t \<Rightarrow>
          if snd (take_sign t) = [] \<or> \<not> list_all is_digit (snd (take_sign t)) then Inl ValueError
          else Inr (if fst (take_sign t) then - int (nat_of_digits (snd (take_sign t)))
                    else int (nat_of_digits (snd (take_sign t)))))"

definition lower_char :: "char \<Rightarrow> char" where
  "lower_char c =
     (case map_of (zip ''ABCDEFGHIJKLMNOPQRSTUVWXYZ'' ''abcdefghijklmnopqrstuvwxyz'') c of
        Some l \<Rightarrow> l | None \<Rightarrow> c)"

definition upper_char :: "char \<Rightarrow> char" where
  "upper_char c =
     (case map_of (zip ''abcdefghijklmnopqrstuvwxyz'' ''ABCDEFGHIJKLMNOPQRSTUVWXYZ'') c of
        Some u \<Rightarrow> u | None \<Rightarrow> c)"

text \<open>\<^verbatim>\<open>s.upper()\<close>.\<close>

definition upper :: "string \<Rightarrow> string" where
  "upper s = map upper_char s"

text \<open>
  The exponent part of a decimal literal: empty, or \<open>e\<close>/\<open>E\<close>, an optional sign and at
  least one digit.
\<close>

definition parse_exponent :: "string \<Rightarrow> int option" where
  "parse_exponent s =
     (case s of
        [] \<Rightarrow> Some 0
      | c # cs \<Rightarrow>
          if c = CHR ''e'' \<or> c = CHR ''E'' then
            (if snd (take_sign cs) = [] \<or> \<not> list_all is_digit (snd (take_sign cs)) then None
             else Some (if fst (take_sign cs) then - int (nat_of_digits (snd (take_sign cs)))
                        else int (nat_of_digits (snd (take_sign cs)))))
          else None)"

text \<open>\<open>d * 10\<^sup>e\<^sup>x\<close> as a fraction of naturals.\<close>

definition decimal :: "nat \<Rightarrow> int \<Rightarrow> nat \<times> nat" where
  "decimal d ex = (if 0 \<le> ex then (d * 10 ^ nat ex, 1) else (d, 10 ^ nat (- ex)))"

text \<open>
  The parts of a decimal literal \<open>r\<close>: the digits before the point, the digits after it,
  and what follows them.
\<close>

definition int_part :: "string \<Rightarrow> string" where
  "int_part r = takeWhile is_digit r"

definition frac_part :: "string \<Rightarrow> string" where
  "frac_part r =
     (case dropWhile is_digit r of
        [] \<Rightarrow> []
      | c # cs \<Rightarrow> if c = CHR ''.'' then takeWhile is_digit cs else [])"

definition exp_part :: "string \<Rightarrow> string" where
  "exp_part r =
     (case dropWhile is_digit r of
        [] \<Rightarrow> []
      | c # cs \<Rightarrow> if c = CHR ''.'' then dropWhile is_digit cs else c # cs)"

definition decimal_literal :: "bool \<Rightarrow> string \<Rightarrow> error + pyfloat" where
  "decimal_literal neg r =
     (if int_part r = [] \<and> frac_part r = [] then Inl ValueError
      else (case parse_exponent (exp_part r) of
              None \<Rightarrow> Inl ValueError
            | Some ex \<Rightarrow>
                Inr (round_to_double neg
                       (fst (decimal (nat_of_digits (int_part r @ frac_part r))
                               (ex - int (length (frac_part r)))))
                       (snd (decimal (nat_of_digits (int_part r @ frac_part r))
                               (ex - int (length (frac_part r))))))))"

text \<open>
  \<^verbatim>\<open>float(s)\<close> for a string \<open>s\<close>: \<open>inf\<close>, \<open>infinity\<close> and \<open>nan\<close> in any case, or a decimal
  literal with at least one digit before or after the point; the decimal value is
  rounded correctly.
\<close>

definition float_literal :: "bool \<Rightarrow> string \<Rightarrow> error + pyfloat" where
  "float_literal neg r =
     (if map lower_char r = ''inf'' \<or> map lower_char r = ''infinity'' then Inr (Inf neg)
      else if map lower_char r = ''nan'' then Inr NaN
      else decimal_literal neg r)"

definition float_of_string :: "string \<Rightarrow> error + pyfloat" where
  "float_of_string s =
     (case drop_underscores CHR '' '' (strip s) of
        None \<Rightarrow> Inl ValueError
      | Some t \<Rightarrow> float_literal (fst (take_sign t)) (snd (take_sign t)))"

text \<open>\<^verbatim>\<open>float(n)\<close> for an \<^verbatim>\<open>int\<close>: rounded correctly, \<^verbatim>\<open>OverflowError\<close> beyond the range.\<close>

definition float_of_int :: "int \<Rightarrow> error + pyfloat" where
  "float_of_int n =
     (case round_to_double (n < 0) (nat \<bar>n\<bar>) 1 of
        Inf s \<Rightarrow> Inl OverflowError
      | x \<Rightarrow> Inr x)"

subsection \<open>Strings\<close>

text \<open>\<^verbatim>\<open>s.startswith(p)\<close>.\<close>

fun startswith :: "string \<Rightarrow> string \<Rightarrow> bool" where
  "startswith s [] = True"
| "startswith [] (p # ps) = False"
| "startswith (c # cs) (p # ps) = (c = p \<and> startswith cs ps)"

text \<open>\<^verbatim>\<open>p in s\<close> for two strings: \<open>p\<close> occurs in \<open>s\<close> as a substring.\<close>

fun substring :: "string \<Rightarrow> string \<Rightarrow> bool" where
  "substring p [] = (p = [])"
| "substring p (c # cs) = (startswith (c # cs) p \<or> substring p cs)"

text \<open>
  \<^verbatim>\<open>s.split()\<close>: the maximal runs of characters that are not whitespace. \<open>cur\<close> is the
  run being read.
\<close>

fun split_from :: "string \<Rightarrow> string \<Rightarrow> string list" where
  "split_from cur [] = (if cur = [] then [] else [cur])"
| "split_from cur (c # cs) =
     (if is_space c then (if cur = [] then split_from [] cs else cur # split_from [] cs)
      else split_from (cur @ [c]) cs)"

definition py_split :: "string \<Rightarrow> string list" where
  "py_split s = split_from [] s"

text \<open>\<^verbatim>\<open>xs[i]\<close> on a list, for an index that is not negative.\<close>

definition index :: "'a list \<Rightarrow> nat \<Rightarrow> error + 'a" where
  "index xs i = (if i < length xs then Inr (xs ! i) else Inl IndexError)"

subsection \<open>JSON documents\<close>

text \<open>
  What \<^verbatim>\<open>response.json()\<close> returns: \<^verbatim>\<open>None\<close>, a \<^verbatim>\<open>bool\<close>, an \<^verbatim>\<open>int\<close>, a \<^verbatim>\<open>float\<close>, a
  \<^verbatim>\<open>str\<close>, a \<^verbatim>\<open>list\<close> or a \<^verbatim>\<open>dict\<close> with string keys (its items in order).
\<close>

datatype json =
    JNull | JBool bool | JInt int | JFloat pyfloat | JStr string
  | JArr "json list" | JObj "(string \<times> json) list"

text \<open>\<^verbatim>\<open>key in x\<close> for a string \<open>key\<close>.\<close>

fun contains :: "json \<Rightarrow> string \<Rightarrow> error + bool" where
  "contains (JObj kvs) key = Inr (key \<in> set (map fst kvs))"
| "contains (JArr xs) key = Inr (JStr key \<in> set xs)"
| "contains (JStr s) key = Inr (substring key s)"
| "contains x key = Inl TypeError"

text \<open>\<^verbatim>\<open>x[key]\<close> for a string \<open>key\<close>.\<close>

fun subscript :: "json \<Rightarrow> string \<Rightarrow> error + json" where
  "subscript (JObj kvs) key = (case map_of kvs key of None \<Rightarrow> Inl KeyError | Some v \<Rightarrow> Inr v)"
| "subscript x key = Inl TypeError"

text \<open>\<^verbatim>\<open>float(x)\<close>.\<close>

fun py_float :: "json \<Rightarrow> error + pyfloat" where
  "py_float (JStr s) = float_of_string s"
| "py_float (JInt n) = float_of_int n"
| "py_float (JFloat x) = Inr x"
| "py_float (JBool b) = Inr (if b then float_one else Finite False 0 (- 1074))"
| "py_float x = Inl TypeError"

section \<open>The world around the bot\<close>

subsection \<open>The tracker store\<close>

text \<open>
  The cache is the dict \<open>on_message\<close> builds and \<open>save_cache\<close> writes: from message key
  to the item with the keys \<^verbatim>\<open>message_id\<close>, \<^verbatim>\<open>symbol\<close>, \<^verbatim>\<open>fiat\<close>, \<^verbatim>\<open>amount\<close> and
  \<^verbatim>\<open>channel_id\<close>. \<open>update_crypto_prices\<close> reads \<^verbatim>\<open>amount\<close> with a default, so that key
  may be missing. The dict keeps its items in insertion order.
\<close>

record tracked_item =
  message_id :: int
  symbol :: string
  fiat :: string
  amount :: "pyfloat option"
  channel_id :: int

type_synonym store = "(string \<times> tracked_item) list"

text \<open>
  A JSON value that is not an object: what \<^verbatim>\<open>json.load\<close> returns from a file that
  holds \<^verbatim>\<open>null\<close>, a boolean, a number, a string or a list.
\<close>

datatype non_object =
    NNull | NBool bool | NInt int | NFloat pyfloat | NStr string | NArr "json list"

text \<open>
  A file that exists, as \<^verbatim>\<open>json.load\<close> sees it: not a JSON text (an image is such a
  file), the JSON text of a store, or the JSON text of a value that is not an object.
  A JSON object in the cache file is taken to be a store: its items are the dicts that
  \<open>on_message\<close> writes.
\<close>

datatype file_state = NotJson | Doc store | Other non_object

text \<open>What \<open>load_cache\<close> returns: the dict of a store, or a value that is not a dict.\<close>

datatype cache = Dict store | NonDict non_object

text \<open>\<^verbatim>\<open>len(cache)\<close>: defined on a dict, a list and a string.\<close>

fun py_len :: "cache \<Rightarrow> error + nat" where
  "py_len (Dict items) = Inr (length items)"
| "py_len (NonDict (NArr xs)) = Inr (length xs)"
| "py_len (NonDict (NStr s)) = Inr (length s)"
| "py_len (NonDict v) = Inl TypeError"

text \<open>
  \<^verbatim>\<open>cache[key] = item\<close>: on a dict the item is put under the key (in place when the
  key is there, at the end when it is new); a list, a string and the other values
  raise \<^verbatim>\<open>TypeError\<close> for a string key.
\<close>

fun set_item :: "cache \<Rightarrow> string \<Rightarrow> tracked_item \<Rightarrow> error + cache" where
  "set_item (Dict items) key item = Inr (Dict (AList.update key item items))"
| "set_item (NonDict v) key item = Inl TypeError"

text \<open>The file that holds the JSON text of a value.\<close>

fun written :: "cache \<Rightarrow> file_state" where
  "written (Dict items) = Doc items"
| "written (NonDict v) = Other v"

subsection \<open>Discord messages\<close>

text \<open>
  The name of the third field, \<^verbatim>\<open>f'Value of {amount} {symbol}'\<close>, and the two replies
  that print a float or an exception are kept as their parts, not as rendered text.
\<close>

datatype field_name = CurrentPrice | Change24h | ValueOf pyfloat string

record embed =
  title :: string
  embed_fields :: "(field_name \<times> string) list"
  thumbnail :: "string option"
  footer :: string

datatype reply =
    CouldNotFetch string string
  | Tracking string string pyfloat int
  | ErrorOccurred error

datatype content = Text reply | Embedded embed "string list"

record post =
  post_id :: int
  post_channel :: int
  body :: content

text \<open>The incoming message of \<open>on_message\<close>.\<close>

record message =
  author :: int
  msg_content :: string
  msg_channel :: int

subsection \<open>The world\<close>

datatype api_call =
    HttpPost string
  | OpenRead string | OpenWrite string | WriteJson string
  | SendText int | SendEmbed int
  | FetchMessage int int | EditEmbed int int | EditAttachments int int

text \<open>
  \<^item> \<open>clock\<close> counts the calls made to the outside so far, \<open>trace\<close> lists them;
  \<^item> \<open>faults n\<close> is the exception the \<open>n\<close>-th call raises, if any (a transport error, a
    Discord error, an I/O error, a cancellation);
  \<^item> \<open>responses n pair\<close> is the JSON body the price API returns to the \<open>n\<close>-th call for
    \<open>pair\<close>;
  \<^item> \<open>files\<close> is the file system; \<open>channels\<close> are the channel ids
    \<^verbatim>\<open>client.get_channel\<close> resolves; \<open>posts\<close> are the messages that exist on Discord;
  \<^item> \<open>id_supply n\<close> is the id Discord gives a message created by the \<open>n\<close>-th call;
  \<^item> \<open>now n\<close> is the text of \<^verbatim>\<open>datetime.now()\<close> at that point.
\<close>

record world =
  clock :: nat
  trace :: "api_call list"
  faults :: "nat \<Rightarrow> error option"
  responses :: "nat \<Rightarrow> string \<Rightarrow> json"
  files :: "string \<Rightarrow> file_state option"
  client_user :: int
  channels :: "int \<Rightarrow> bool"
  posts :: "post list"
  id_supply :: "nat \<Rightarrow> int"
  now :: "nat \<Rightarrow> string"

text \<open>One call to the outside: logged, counted, and failing as \<open>faults\<close> says.\<close>

definition ext_call :: "api_call \<Rightarrow> world \<Rightarrow> error option \<times> world" where
  "ext_call c w = (faults w (clock w), w\<lparr>clock := Suc (clock w), trace := trace w @ [c]\<rparr>)"

text \<open>\<^verbatim>\<open>os.path.exists(p)\<close>.\<close>

definition path_exists :: "world \<Rightarrow> string \<Rightarrow> bool" where
  "path_exists w p = (files w p \<noteq> None)"

text \<open>\<^verbatim>\<open>os.path.join(a, b)\<close> on POSIX, for a directory name \<open>a\<close> without a slash.\<close>

definition path_join :: "string \<Rightarrow> string \<Rightarrow> string" where
  "path_join a b = (if startswith b ''/'' then b else a @ ''/'' @ b)"

text \<open>
  \<^verbatim>\<open>discord.File(path, filename=name)\<close> opens the file at once: \<^verbatim>\<open>FileNotFoundError\<close> when
  it does not exist.
\<close>

definition discord_File :: "string \<Rightarrow> string \<Rightarrow> world \<Rightarrow> (error + string) \<times> world" where
  "discord_File path name w =
     (if \<not> path_exists w path then (Inl FileNotFoundError, w)
      else case ext_call (OpenRead path) w of
             (Some e, w') \<Rightarrow> (Inl e, w')
           | (None, w') \<Rightarrow> (Inr name, w'))"

text \<open>\<^verbatim>\<open>message.channel.send(text)\<close>.\<close>

definition send_text :: "int \<Rightarrow> reply \<Rightarrow> world \<Rightarrow> (error + unit) \<times> world" where
  "send_text ch r w =
     (case ext_call (SendText ch) w of
        (Some e, w') \<Rightarrow> (Inl e, w')
      | (None, w') \<Rightarrow>
          (Inr (), w'\<lparr>posts := posts w' @ [\<lparr>post_id = id_supply w (clock w), post_channel = ch, body = Text r\<rparr>]\<rparr>))"

text \<open>\<^verbatim>\<open>channel.send(embed=embed, files=[file])\<close>: the id of the message sent.\<close>

definition send_embed :: "int \<Rightarrow> embed \<Rightarrow> string list \<Rightarrow> world \<Rightarrow> (error + int) \<times> world" where
  "send_embed ch em atts w =
     (case ext_call (SendEmbed ch) w of
        (Some e, w') \<Rightarrow> (Inl e, w')
      | (None, w') \<Rightarrow>
          (Inr (id_supply w (clock w)),
           w'\<lparr>posts := posts w' @
                 [\<lparr>post_id = id_supply w (clock w), post_channel = ch, body = Embedded em atts\<rparr>]\<rparr>))"

text \<open>\<^verbatim>\<open>channel.fetch_message(id)\<close>: \<^verbatim>\<open>discord.NotFound\<close> when no such message exists.\<close>

definition has_post :: "world \<Rightarrow> int \<Rightarrow> int \<Rightarrow> bool" where
  "has_post w ch mid = (\<exists>p \<in> set (posts w). post_channel p = ch \<and> post_id p = mid)"

definition fetch_message :: "int \<Rightarrow> int \<Rightarrow> world \<Rightarrow> (error + unit) \<times> world" where
  "fetch_message ch mid w =
     (case ext_call (FetchMessage ch mid) w of
        (Some e, w') \<Rightarrow> (Inl e, w')
      | (None, w') \<Rightarrow> if has_post w ch mid then (Inr (), w') else (Inl NotFound, w'))"

text \<open>\<^verbatim>\<open>cached_message.edit(embed=embed)\<close> and \<^verbatim>\<open>cached_message.edit(attachments=[file])\<close>.\<close>

definition set_embed :: "embed \<Rightarrow> content \<Rightarrow> content" where
  "set_embed em c = (case c of Text r \<Rightarrow> Embedded em [] | Embedded old atts \<Rightarrow> Embedded em atts)"

definition set_attachments :: "string list \<Rightarrow> content \<Rightarrow> content" where
  "set_attachments atts c = (case c of Text r \<Rightarrow> Text r | Embedded em old \<Rightarrow> Embedded em atts)"

definition edit_post :: "int \<Rightarrow> int \<Rightarrow> (content \<Rightarrow> content) \<Rightarrow> post list \<Rightarrow> post list" where
  "edit_post ch mid f ps =
     map (\<lambda>p. if post_channel p = ch \<and> post_id p = mid then p\<lparr>body := f (body p)\<rparr> else p) ps"

definition edit_embed :: "int \<Rightarrow> int \<Rightarrow> embed \<Rightarrow> world \<Rightarrow> (error + unit) \<times> world" where
  "edit_embed ch mid em w =
     (case ext_call (EditEmbed ch mid) w of
        (Some e, w') \<Rightarrow> (Inl e, w')
      | (None, w') \<Rightarrow> (Inr (), w'\<lparr>posts := edit_post ch mid (set_embed em) (posts w')\<rparr>))"

definition edit_attachments :: "int \<Rightarrow> int \<Rightarrow> string list \<Rightarrow> world \<Rightarrow> (error + unit) \<times> world" where
  "edit_attachments ch mid atts w =
     (case ext_call (EditAttachments ch mid) w of
        (Some e, w') \<Rightarrow> (Inl e, w')
      | (None, w') \<Rightarrow> (Inr (), w'\<lparr>posts := edit_post ch mid (set_attachments atts) (posts w')\<rparr>))"

section \<open>cryptobot.py\<close>

definition CACHE_FILE :: string where
  "CACHE_FILE = ''crypto_cache.json''"

definition IMAGES_FOLDER :: string where
  "IMAGES_FOLDER = ''images''"

subsection \<open>get_crypto_data\<close>

text \<open>
  Lines 34 to 38, on the decoded body \<open>data\<close>: \<^verbatim>\<open>None\<close> (here \<open>JNull\<close>) when \<^verbatim>\<open>'data'\<close> is
  not in \<open>data\<close> or the pair is not in \<^verbatim>\<open>data['data']\<close>, else \<^verbatim>\<open>data['data'][pair]\<close>. The
  \<^verbatim>\<open>in\<close> tests and the subscripts raise \<^verbatim>\<open>TypeError\<close> on a value they are not defined for.
\<close>

definition lookup_pair :: "json \<Rightarrow> string \<Rightarrow> error + json" where
  "lookup_pair data pair =
     (case contains data ''data'' of
        Inl e \<Rightarrow> Inl e
      | Inr has_data \<Rightarrow>
          if \<not> has_data then Inr JNull
          else (case subscript data ''data'' of
                  Inl e \<Rightarrow> Inl e
                | Inr d \<Rightarrow>
                    (case contains d pair of
                       Inl e \<Rightarrow> Inl e
                     | Inr has_pair \<Rightarrow> if \<not> has_pair then Inr JNull else subscript d pair)))"

text \<open>
  The request, \<^verbatim>\<open>raise_for_status\<close> and \<^verbatim>\<open>response.json()\<close> are one call to the outside.
  The handler is \<^verbatim>\<open>except requests.exceptions.RequestException\<close>: that exception gives
  \<^verbatim>\<open>None\<close>, any other one leaves the function.
\<close>

definition pair_name :: "string \<Rightarrow> string \<Rightarrow> string" where
  "pair_name symb fi = symb @ ''-'' @ fi"

definition get_crypto_data :: "string \<Rightarrow> string \<Rightarrow> world \<Rightarrow> (error + json) \<times> world" where
  "get_crypto_data symb fi w =
     (case ext_call (HttpPost (pair_name symb fi)) w of
        (Some e, w') \<Rightarrow> (if e = RequestException then Inr JNull else Inl e, w')
      | (None, w') \<Rightarrow>
          (lookup_pair (responses w (clock w) (pair_name symb fi)) (pair_name symb fi), w'))"

subsection \<open>load_cache and save_cache\<close>

definition load_cache :: "world \<Rightarrow> (error + cache) \<times> world" where
  "load_cache w =
     (case files w CACHE_FILE of
        None \<Rightarrow> (Inr (Dict []), w)
      | Some f \<Rightarrow>
          (case ext_call (OpenRead CACHE_FILE) w of
             (Some e, w') \<Rightarrow> (Inl e, w')
           | (None, w') \<Rightarrow>
               (case f of
                  NotJson \<Rightarrow> (Inl JSONDecodeError, w')
                | Doc items \<Rightarrow> (Inr (Dict items), w')
                | Other v \<Rightarrow> (Inr (NonDict v), w'))))"

text \<open>
  \<^verbatim>\<open>open(CACHE_FILE, 'w')\<close> empties the file; \<^verbatim>\<open>json.dump\<close> then writes the document. A
  failure of the second step leaves a file that is not a JSON text.
\<close>

definition save_cache :: "cache \<Rightarrow> world \<Rightarrow> (error + unit) \<times> world" where
  "save_cache cache w =
     (case ext_call (OpenWrite CACHE_FILE) w of
        (Some e, w1) \<Rightarrow> (Inl e, w1)
      | (None, w1) \<Rightarrow>
          (case ext_call (WriteJson CACHE_FILE) (w1\<lparr>files := (files w1)(CACHE_FILE \<mapsto> NotJson)\<rparr>) of
             (Some e, w2) \<Rightarrow> (Inl e, w2)
           | (None, w2) \<Rightarrow> (Inr (), w2\<lparr>files := (files w2)(CACHE_FILE \<mapsto> written cache)\<rparr>)))"

subsection \<open>create_embed\<close>

text \<open>
  \<open>price\<close> and \<open>percent_change\<close> are the floats of \<^verbatim>\<open>data['last']\<close> and
  \<^verbatim>\<open>data['priceChangePercentage']\<close>; the total value is their float product with the
  amount; the three numbers are formatted with \<^verbatim>\<open>.2f\<close>.
\<close>

definition image_path :: "string \<Rightarrow> string" where
  "image_path symb = path_join IMAGES_FOLDER (symb @ ''.png'')"

definition create_embed ::
  "string \<Rightarrow> string \<Rightarrow> json \<Rightarrow> pyfloat \<Rightarrow> world \<Rightarrow> error + (embed \<times> string)" where
  "create_embed symb fi data amt w =
     (case subscript data ''last'' of
        Inl e \<Rightarrow> Inl e
      | Inr l \<Rightarrow>
     (case py_float l of
        Inl e \<Rightarrow> Inl e
      | Inr price \<Rightarrow>
     (case subscript data ''priceChangePercentage'' of
        Inl e \<Rightarrow> Inl e
      | Inr pc \<Rightarrow>
     (case py_float pc of
        Inl e \<Rightarrow> Inl e
      | Inr percent_change \<Rightarrow>
          Inr (\<lparr>title = symb @ '' Price in '' @ fi,
                 embed_fields = [(CurrentPrice, fi @ '' '' @ format_2f price),
                                 (Change24h, format_2f percent_change @ ''%''),
                                 (ValueOf amt symb, fi @ '' '' @ format_2f (fmul price amt))],
                 thumbnail = (if path_exists w (image_path symb)
                              then Some (''attachment://'' @ symb @ ''.png'') else None),
                 footer = ''Last updated: '' @ now w (clock w)\<rparr>,
               image_path symb)))))"

subsection \<open>on_message\<close>

text \<open>Lines 91 to 95: the arguments of the command.\<close>

definition parse_command :: "string \<Rightarrow> error + (string \<times> string \<times> int \<times> pyfloat)" where
  "parse_command txt =
     (case index (py_split txt) 1 of
        Inl e \<Rightarrow> Inl e
      | Inr p1 \<Rightarrow>
     (case index (py_split txt) 2 of
        Inl e \<Rightarrow> Inl e
      | Inr p2 \<Rightarrow>
     (case index (py_split txt) 3 of
        Inl e \<Rightarrow> Inl e
      | Inr p3 \<Rightarrow>
     (case py_int p3 of
        Inl e \<Rightarrow> Inl e
      | Inr cid \<Rightarrow>
          if 4 < length (py_split txt)
          then (case float_of_string (py_split txt ! 4) of
                  Inl e \<Rightarrow> Inl e
                | Inr amt \<Rightarrow> Inr (upper p1, upper p2, cid, amt))
          else Inr (upper p1, upper p2, cid, float_one)))))"

text \<open>Line 106: \<^verbatim>\<open>f"{channel_id}-{symbol}-{fiat}-{len(cache)}"\<close>, with \<open>n\<close> for \<^verbatim>\<open>len(cache)\<close>.\<close>

definition message_key :: "int \<Rightarrow> string \<Rightarrow> string \<Rightarrow> nat \<Rightarrow> string" where
  "message_key cid symb fi n = str_int cid @ ''-'' @ symb @ ''-'' @ fi @ ''-'' @ str_nat n"

text \<open>
  Lines 104 to 109: the cache is loaded, the key made (\<^verbatim>\<open>len(cache)\<close> raises
  \<^verbatim>\<open>TypeError\<close> on a value without a length), the channel looked up and the
  first message sent. \<^verbatim>\<open>channel.send\<close> on the \<^verbatim>\<open>None\<close> of an unknown channel is an
  \<^verbatim>\<open>AttributeError\<close>, raised before the arguments of the call (the file) are evaluated.
\<close>

definition track_post ::
  "int \<Rightarrow> string \<Rightarrow> string \<Rightarrow> embed \<Rightarrow> string \<Rightarrow> world \<Rightarrow> (error + (cache \<times> string \<times> int)) \<times> world" where
  "track_post cid symb fi em path w =
     (case load_cache w of
        (Inl e, w1) \<Rightarrow> (Inl e, w1)
      | (Inr cache, w1) \<Rightarrow>
          (case py_len cache of
             Inl e \<Rightarrow> (Inl e, w1)
           | Inr n \<Rightarrow>
               if \<not> channels w1 cid then (Inl AttributeError, w1)
               else (case discord_File path (symb @ ''.png'') w1 of
                       (Inl e, w2) \<Rightarrow> (Inl e, w2)
                     | (Inr att, w2) \<Rightarrow>
                         (case send_embed cid em [att] w2 of
                            (Inl e, w3) \<Rightarrow> (Inl e, w3)
                          | (Inr sent_id, w3) \<Rightarrow>
                              (Inr (cache, message_key cid symb fi n, sent_id), w3)))))"

text \<open>Lines 110 to 119: the item is put into the cache, the cache saved, the user told.\<close>

definition track_store ::
  "message \<Rightarrow> int \<Rightarrow> string \<Rightarrow> string \<Rightarrow> pyfloat \<Rightarrow> cache \<times> string \<times> int \<Rightarrow> world \<Rightarrow> (error + unit) \<times> world" where
  "track_store msg cid symb fi amt r w =
     (case r of (cache, key, sent_id) \<Rightarrow>
        (case set_item cache key
                \<lparr>message_id = sent_id, symbol = symb, fiat = fi, amount = Some amt, channel_id = cid\<rparr> of
           Inl e \<Rightarrow> (Inl e, w)
         | Inr cache' \<Rightarrow>
             (case save_cache cache' w of
                (Inl e, w1) \<Rightarrow> (Inl e, w1)
              | (Inr u, w1) \<Rightarrow> send_text (msg_channel msg) (Tracking symb fi amt cid) w1)))"

text \<open>Lines 91 to 109: everything the \<^verbatim>\<open>try\<close> block does before it touches the cache.\<close>

datatype 'a outcome = Raised error | Returned | Posted 'a

definition track_prepare ::
  "message \<Rightarrow> world \<Rightarrow> ((string \<times> string \<times> int \<times> pyfloat) \<times> (cache \<times> string \<times> int)) outcome \<times> world" where
  "track_prepare msg w =
     (case parse_command (msg_content msg) of
        Inl e \<Rightarrow> (Raised e, w)
      | Inr (symb, fi, cid, amt) \<Rightarrow>
          (case get_crypto_data symb fi w of
             (Inl e, w1) \<Rightarrow> (Raised e, w1)
           | (Inr data, w1) \<Rightarrow>
               if data = JNull
               then (case send_text (msg_channel msg) (CouldNotFetch symb fi) w1 of
                       (Inl e, w2) \<Rightarrow> (Raised e, w2)
                     | (Inr u, w2) \<Rightarrow> (Returned, w2))
               else (case create_embed symb fi data amt w1 of
                       Inl e \<Rightarrow> (Raised e, w1)
                     | Inr (em, path) \<Rightarrow>
                         (case track_post cid symb fi em path w1 of
                            (Inl e, w2) \<Rightarrow> (Raised e, w2)
                          | (Inr r, w2) \<Rightarrow> (Posted ((symb, fi, cid, amt), r), w2)))))"

text \<open>The body of the \<^verbatim>\<open>try\<close> block, lines 91 to 119.\<close>

definition track :: "message \<Rightarrow> world \<Rightarrow> (error + unit) \<times> world" where
  "track msg w =
     (case track_prepare msg w of
        (Raised e, w1) \<Rightarrow> (Inl e, w1)
      | (Returned, w1) \<Rightarrow> (Inr (), w1)
      | (Posted ((symb, fi, cid, amt), r), w1) \<Rightarrow> track_store msg cid symb fi amt r w1)"

text \<open>
  The handler \<^verbatim>\<open>except Exception as e\<close> replies on the channel of the command; that
  reply may raise in its turn.
\<close>

definition on_message :: "message \<Rightarrow> world \<Rightarrow> (error + unit) \<times> world" where
  "on_message msg w =
     (if author msg = client_user w then (Inr (), w)
      else if startswith (msg_content msg) ''!crypto'' then
        (case track msg w of
           (Inl e, w1) \<Rightarrow>
             if is_Exception e then send_text (msg_channel msg) (ErrorOccurred e) w1
             else (Inl e, w1)
         | (Inr u, w1) \<Rightarrow> (Inr (), w1))
      else (Inr (), w))"

subsection \<open>update_crypto_prices\<close>

text \<open>Lines 144 to 148, the body of the \<^verbatim>\<open>try\<close> block of the loop.\<close>

definition refresh_message ::
  "int \<Rightarrow> int \<Rightarrow> embed \<Rightarrow> string \<Rightarrow> string \<Rightarrow> world \<Rightarrow> (error + unit) \<times> world" where
  "refresh_message ch mid em path symb w =
     (case fetch_message ch mid w of
        (Inl e, w1) \<Rightarrow> (Inl e, w1)
      | (Inr u, w1) \<Rightarrow>
          (case edit_embed ch mid em w1 of
             (Inl e, w2) \<Rightarrow> (Inl e, w2)
           | (Inr u, w2) \<Rightarrow>
               if path_exists w2 path
               then (case discord_File path (symb @ ''.png'') w2 of
                       (Inl e, w3) \<Rightarrow> (Inl e, w3)
                     | (Inr att, w3) \<Rightarrow> edit_attachments ch mid [att] w3)
               else (Inr (), w2)))"

text \<open>
  Lines 130 to 150, one turn of the loop. \<^verbatim>\<open>continue\<close> and the handler
  \<^verbatim>\<open>except discord.NotFound\<close> end the turn normally; any other exception leaves the loop.
\<close>

text \<open>\<^verbatim>\<open>data.get('amount', 1.0)\<close>.\<close>

definition amount_or_one :: "tracked_item \<Rightarrow> pyfloat" where
  "amount_or_one data = (case amount data of None \<Rightarrow> float_one | Some a \<Rightarrow> a)"

definition update_item :: "string \<times> tracked_item \<Rightarrow> world \<Rightarrow> (error + unit) \<times> world" where
  "update_item kv w =
     (case kv of (key, data) \<Rightarrow>
        if \<not> channels w (channel_id data) then (Inr (), w)
        else (case get_crypto_data (symbol data) (fiat data) w of
                (Inl e, w1) \<Rightarrow> (Inl e, w1)
              | (Inr crypto_data, w1) \<Rightarrow>
                  if crypto_data = JNull then (Inr (), w1)
                  else (case create_embed (symbol data) (fiat data) crypto_data (amount_or_one data) w1 of
                          Inl e \<Rightarrow> (Inl e, w1)
                        | Inr (em, path) \<Rightarrow>
                            (case refresh_message (channel_id data) (message_id data) em
                                    path (symbol data) w1 of
                               (Inl e, w2) \<Rightarrow> if e = NotFound then (Inr (), w2) else (Inl e, w2)
                             | (Inr u, w2) \<Rightarrow> (Inr (), w2)))))"

fun update_items :: "store \<Rightarrow> world \<Rightarrow> (error + unit) \<times> world" where
  "update_items [] w = (Inr (), w)"
| "update_items (kv # rest) w =
     (case update_item kv w of
        (Inl e, w1) \<Rightarrow> (Inl e, w1)
      | (Inr u, w1) \<Rightarrow> update_items rest w1)"

text \<open>
  One run of the task, every five minutes. \<^verbatim>\<open>cache.items()\<close> is an \<^verbatim>\<open>AttributeError\<close> on
  a value that is not a dict.
\<close>

definition update_crypto_prices :: "world \<Rightarrow> (error + unit) \<times> world" where
  "update_crypto_prices w =
     (case load_cache w of
        (Inl e, w1) \<Rightarrow> (Inl e, w1)
      | (Inr (Dict items), w1) \<Rightarrow> update_items items w1
      | (Inr (NonDict v), w1) \<Rightarrow> (Inl AttributeError, w1))"

section \<open>The life of the bot\<close>

text \<open>
  The bot reacts to two events: a message arrives (\<open>on_message\<close>), or the timer fires
  (\<open>update_crypto_prices\<close>). An exception that leaves a handler is logged by the
  framework and the bot goes on.
\<close>

datatype event = Message message | Tick

fun run :: "event list \<Rightarrow> world \<Rightarrow> world" where
  "run [] w = w"
| "run (Message msg # evs) w = run evs (snd (on_message msg w))"
| "run (Tick # evs) w = run evs (snd (update_crypto_prices w))"

text \<open>The store in the cache file; empty when the file is missing or holds no store.\<close>

definition stored :: "world \<Rightarrow> store" where
  "stored w = (case files w CACHE_FILE of Some (Doc cache) \<Rightarrow> cache | _ \<Rightarrow> [])"

text \<open>
  \<open>keyed_from n cache\<close>: the key of every item is the key of line 106 for the item's own
  channel, symbol and fiat, and for its position in the store, counted from \<open>n\<close>.
\<close>

fun keyed_from :: "nat \<Rightarrow> store \<Rightarrow> bool" where
  "keyed_from n [] = True"
| "keyed_from n ((k, it) # rest) =
     (k = message_key (channel_id it) (symbol it) (fiat it) n \<and> keyed_from (Suc n) rest)"

section \<open>Example worlds\<close>

text \<open>
  A world in which nothing fails: the price API answers every pair with a price of
  \<open>50000.00\<close> and a change of \<open>-1.23\<close>, the channels 1 and 42 exist, the images of BTC and
  ETH exist, there is no cache file yet, and the bot is user 0.
\<close>

definition ticker :: "string \<Rightarrow> string \<Rightarrow> json" where
  "ticker l pc = JObj [(''last'', JStr l), (''priceChangePercentage'', JStr pc)]"

definition quiet_world :: world where
  "quiet_world =
     \<lparr>clock = 0, trace = [], faults = (\<lambda>n. None),
      responses = (\<lambda>n pair. JObj [(''data'', JObj [(pair, ticker ''50000.00'' ''-1.23'')])]),
      files = [''images/BTC.png'' \<mapsto> NotJson, ''images/ETH.png'' \<mapsto> NotJson],
      client_user = 0,
      channels = (\<lambda>c. c = 1 \<or> c = 42),
      posts = [],
      id_supply = (\<lambda>n. 1000 + int n),
      now = (\<lambda>n. ''2024-01-01 00:00:00'')\<rparr>"

definition btc_item :: tracked_item where
  "btc_item =
     \<lparr>message_id = 77, symbol = ''BTC'', fiat = ''USD'',
      amount = Some (Finite False (2 ^ 52) (- 51)), channel_id = 1\<rparr>"

definition btc_store :: store where
  "btc_store = [(''1-BTC-USD-0'', btc_item)]"

text \<open>Commands sent by user 7 on channel 5.\<close>

definition command :: "string \<Rightarrow> message" where
  "command txt = \<lparr>author = 7, msg_content = txt, msg_channel = 5\<rparr>"

text \<open>The world in which the \<open>k\<close>-th call to the outside raises \<open>e\<close>.\<close>

definition failing_at :: "nat \<Rightarrow> error \<Rightarrow> world" where
  "failing_at k e = quiet_world\<lparr>faults := (\<lambda>n. if n = k then Some e else None)\<rparr>"

text \<open>
  A world for the refresh task: two tracked items, of which only the second has its
  message on Discord.
\<close>

definition eth_item :: tracked_item where
  "eth_item = \<lparr>message_id = 78, symbol = ''ETH'', fiat = ''EUR'', amount = None, channel_id = 42\<rparr>"

definition two_items :: store where
  "two_items = [(''1-BTC-USD-0'', btc_item), (''42-ETH-EUR-1'', eth_item)]"

definition stale_embed :: embed where
  "stale_embed = \<lparr>title = ''ETH Price in EUR'', embed_fields = [], thumbnail = None, footer = []\<rparr>"

definition tick_world :: world where
  "tick_world =
     quiet_world
       \<lparr>files := (files quiet_world)(CACHE_FILE \<mapsto> Doc two_items),
        posts := [\<lparr>post_id = 78, post_channel = 42, body = Embedded stale_embed [''ETH.png'']\<rparr>]\<rparr>"

text \<open>The calls that edit a message.\<close>

fun is_edit :: "api_call \<Rightarrow> bool" where
  "is_edit (EditEmbed ch mid) = True"
| "is_edit (EditAttachments ch mid) = True"
| "is_edit c = False"

text \<open>Worlds in which the price API answers with a body that is given.\<close>

definition answering :: "json \<Rightarrow> world" where
  "answering reply_body = quiet_world\<lparr>responses := (\<lambda>n pair. reply_body)\<rparr>"

text \<open>The same world without any image file.\<close>

definition no_images :: "world \<Rightarrow> world" where
  "no_images w = w\<lparr>files := (\<lambda>p. if p = CACHE_FILE then files w p else None)\<rparr>"

text \<open>The embed of ETH in EUR for the amount 0.5 in the quiet world.\<close>

definition eth_embed :: embed where
  "eth_embed =
     \<lparr>title = ''ETH Price in EUR'',
      embed_fields = [(CurrentPrice, ''EUR 50000.00''), (Change24h, ''-1.23%''),
                      (ValueOf (Finite False (2 ^ 52) (- 53)) ''ETH'', ''EUR 25000.00'')],
      thumbnail = Some ''attachment://ETH.png'',
      footer = ''Last updated: 2024-01-01 00:00:00''\<rparr>"

text \<open>A store with one item, BTC in USD for the amount 2.0, and its message.\<close>

definition btc_world :: world where
  "btc_world =
     quiet_world
       \<lparr>files := (files quiet_world)(CACHE_FILE \<mapsto> Doc btc_store),
        posts := [\<lparr>post_id = 77, post_channel = 1, body = Embedded stale_embed [''BTC.png'']\<rparr>]\<rparr>"

section \<open>Properties of texts and floats\<close>







text \<open>The quiet world with a cache file that holds a JSON value that is not an object.\<close>

definition cache_holding :: "non_object \<Rightarrow> world" where
  "cache_holding v = quiet_world\<lparr>files := (files quiet_world)(CACHE_FILE \<mapsto> Other v)\<rparr>"

section \<open>Verification\<close>

subsection \<open>Calls to the outside leave the file system alone\<close>

lemma ext_call_eq:
  "ext_call c w = (r, w') \<Longrightarrow>
     r = faults w (clock w) \<and> w' = w\<lparr>clock := Suc (clock w), trace := trace w @ [c]\<rparr>"
  by (auto simp: ext_call_def)

lemma get_crypto_data_files: "files (snd (get_crypto_data symb fi w)) = files w"
  by (simp add: get_crypto_data_def ext_call_def split: option.splits)

lemma load_cache_files: "files (snd (load_cache w)) = files w"
  by (simp add: load_cache_def ext_call_def split: option.splits file_state.splits)

lemma discord_File_files: "files (snd (discord_File p n w)) = files w"
  by (simp add: discord_File_def ext_call_def split: option.splits)

lemma send_text_files: "files (snd (send_text ch r w)) = files w"
  by (simp add: send_text_def ext_call_def split: option.splits)

lemma send_embed_files: "files (snd (send_embed ch em atts w)) = files w"
  by (simp add: send_embed_def ext_call_def split: option.splits)

lemma fetch_message_files: "files (snd (fetch_message ch mid w)) = files w"
  by (simp add: fetch_message_def ext_call_def split: option.splits)

lemma edit_embed_files: "files (snd (edit_embed ch mid em w)) = files w"
  by (simp add: edit_embed_def ext_call_def split: option.splits)

lemma edit_attachments_files: "files (snd (edit_attachments ch mid atts w)) = files w"
  by (simp add: edit_attachments_def ext_call_def split: option.splits)

lemma get_crypto_data_filesD:
  "get_crypto_data symb fi w = (r, w') \<Longrightarrow> files w' = files w"
  using get_crypto_data_files [of symb fi w] by simp

lemma load_cache_filesD: "load_cache w = (r, w') \<Longrightarrow> files w' = files w"
  using load_cache_files [of w] by simp

lemma discord_File_filesD: "discord_File p n w = (r, w') \<Longrightarrow> files w' = files w"
  using discord_File_files [of p n w] by simp

lemma send_text_filesD: "send_text ch r w = (x, w') \<Longrightarrow> files w' = files w"
  using send_text_files [of ch r w] by simp

lemma send_embed_filesD: "send_embed ch em atts w = (x, w') \<Longrightarrow> files w' = files w"
  using send_embed_files [of ch em atts w] by simp

lemma fetch_message_filesD: "fetch_message ch mid w = (r, w') \<Longrightarrow> files w' = files w"
  using fetch_message_files [of ch mid w] by simp

lemma edit_embed_filesD: "edit_embed ch mid em w = (r, w') \<Longrightarrow> files w' = files w"
  using edit_embed_files [of ch mid em w] by simp

lemma edit_attachments_filesD:
  "edit_attachments ch mid atts w = (r, w') \<Longrightarrow> files w' = files w"
  using edit_attachments_files [of ch mid atts w] by simp

lemma refresh_message_filesD:
  assumes "refresh_message ch mid em p symb w = (r, w')"
  shows "files w' = files w"
proof (cases "fetch_message ch mid w")
  case (Pair r1 w1)
  note f1 = fetch_message_filesD [OF Pair]
  show ?thesis
  proof (cases r1)
    case (Inl e)
    with assms Pair f1 show ?thesis by (simp add: refresh_message_def)
  next
    case (Inr u)
    show ?thesis
    proof (cases "edit_embed ch mid em w1")
      case P2: (Pair r2 w2)
      note f2 = edit_embed_filesD [OF P2]
      show ?thesis
      proof (cases r2)
        case (Inl e)
        with assms Pair Inr P2 f1 f2 show ?thesis by (simp add: refresh_message_def)
      next
        case I2: (Inr u2)
        show ?thesis
        proof (cases "path_exists w2 p")
          case False
          with assms Pair Inr P2 I2 f1 f2 show ?thesis by (simp add: refresh_message_def)
        next
          case True
          show ?thesis
          proof (cases "discord_File p (symb @ ''.png'') w2")
            case P3: (Pair r3 w3)
            note f3 = discord_File_filesD [OF P3]
            show ?thesis
            proof (cases r3)
              case (Inl e)
              with assms Pair Inr P2 I2 True P3 f1 f2 f3 show ?thesis
                by (simp add: refresh_message_def)
            next
              case I3: (Inr att)
              with assms Pair Inr P2 I2 True P3 have "edit_attachments ch mid [att] w3 = (r, w')"
                by (simp add: refresh_message_def)
              from edit_attachments_filesD [OF this] f1 f2 f3 show ?thesis by simp
            qed
          qed
        qed
      qed
    qed
  qed
qed

lemma update_item_filesD:
  assumes "update_item kv w = (r, w')"
  shows "files w' = files w"
  using assms
  apply (auto simp: update_item_def Let_def split: sum.splits prod.splits if_splits
              dest: get_crypto_data_filesD)
    apply (metis refresh_message_filesD get_crypto_data_filesD)+
  done

lemma update_items_files: "files (snd (update_items cache w)) = files w"
proof (induction cache arbitrary: w)
  case Nil
  then show ?case by simp
next
  case (Cons kv rest)
  show ?case
  proof (cases "update_item kv w")
    case (Pair r w1)
    then have "files w1 = files w" by (rule update_item_filesD)
    with Pair Cons.IH [of w1] show ?thesis by (cases r) simp_all
  qed
qed

lemma update_crypto_prices_filesD:
  assumes "update_crypto_prices w = (r, w')"
  shows "files w' = files w"
proof (cases "load_cache w")
  case (Pair r1 w1)
  then have f1: "files w1 = files w" by (rule load_cache_filesD)
  show ?thesis
  proof (cases r1)
    case (Inl e)
    with Pair assms f1 show ?thesis by (auto simp: update_crypto_prices_def)
  next
    case (Inr cache)
    show ?thesis
    proof (cases cache)
      case (Dict items)
      with Pair Inr assms have "update_items items w1 = (r, w')"
        by (simp add: update_crypto_prices_def)
      then have "files (snd (update_items items w1)) = files w'" by simp
      with update_items_files [of items w1] f1 show ?thesis by simp
    next
      case (NonDict v)
      with Pair Inr assms f1 show ?thesis by (auto simp: update_crypto_prices_def)
    qed
  qed
qed

subsection \<open>The tracker store\<close>

text \<open>
  C9. When the cache file does not exist, \<open>load_cache\<close> returns the empty dict and
  raises nothing. It raises only when the file exists, and then either the read itself
  fails (the file is unreadable) or the file is not a JSON text.
\<close>

theorem load_cache_missing_file:
  "(files w CACHE_FILE = None \<longrightarrow> load_cache w = (Inr (Dict []), w)) \<and>
   (\<forall>e. fst (load_cache w) = Inl e \<longrightarrow>
        files w CACHE_FILE \<noteq> None \<and>
        (faults w (clock w) = Some e \<or> files w CACHE_FILE = Some NotJson \<and> e = JSONDecodeError))"
  by (auto simp: load_cache_def ext_call_def split: option.splits file_state.splits)

theorem load_cache_missing_file_witness:
  "files quiet_world CACHE_FILE = None \<and>
   load_cache quiet_world = (Inr (Dict []), quiet_world) \<and>
   fst (load_cache (quiet_world\<lparr>files := [CACHE_FILE \<mapsto> NotJson]\<rparr>)) = Inl JSONDecodeError \<and>
   faults (quiet_world\<lparr>files := [CACHE_FILE \<mapsto> NotJson]\<rparr>) 0 \<noteq> Some JSONDecodeError"
  using load_cache_missing_file [of quiet_world]
    load_cache_missing_file [of "quiet_world\<lparr>files := [CACHE_FILE \<mapsto> NotJson]\<rparr>"]
  by (simp add: quiet_world_def CACHE_FILE_def load_cache_def ext_call_def)

text \<open>
  C4. Saving a store and loading it back gives the same store: when \<open>save_cache\<close>
  returns and the read that follows does not fail, \<open>load_cache\<close> returns the store that
  was saved, whatever the file held before.
\<close>

theorem save_then_load:
  assumes "save_cache cache w = (Inr u, w1)"
    and "faults w1 (clock w1) = None"
  shows "fst (load_cache w1) = Inr cache"
  using assms
  by (cases cache) (auto simp: save_cache_def load_cache_def ext_call_def split: option.splits)

theorem save_then_load_witness:
  "fst (save_cache (Dict btc_store) quiet_world) = Inr () \<and>
   fst (load_cache quiet_world) = Inr (Dict []) \<and>
   fst (load_cache (snd (save_cache (Dict btc_store) quiet_world))) = Inr (Dict btc_store)"
  using save_then_load
    [of "Dict btc_store" quiet_world "()" "snd (save_cache (Dict btc_store) quiet_world)"]
  by (simp add: save_cache_def load_cache_def ext_call_def quiet_world_def CACHE_FILE_def)

subsection \<open>The refresh tick\<close>

text \<open>
  C5. A run of \<open>update_crypto_prices\<close> writes no file: whatever the run does and however
  it ends (also when it ends in an exception, and when a tracked message is gone), the
  file system, and with it the cache file and every item in it, is what it was before.
\<close>

theorem tick_keeps_store: "files (snd (update_crypto_prices w)) = files w"
proof (cases "update_crypto_prices w")
  case (Pair r w')
  then have "files w' = files w" by (rule update_crypto_prices_filesD)
  with Pair show ?thesis by simp
qed

subsection \<open>Values of the example worlds\<close>

lemmas py_eval =
  py_split_def is_space_def is_c_space_def index_def upper_def upper_char_def py_int_def strip_def
  is_digit_def take_sign_def nat_of_digits_def digit_val_def float_of_string_def
  float_literal_def decimal_literal_def int_part_def frac_part_def exp_part_def lower_char_def
  parse_exponent_def decimal_def round_to_double_def pack_def exponent_def first_exponent_def
  scaled_def round_half_even_def bit_length.simps float_one_def str_int_def str_nat.simps
  digit_char_def hundredths_def sign_str_def

lemmas io_eval =
  ext_call_def get_crypto_data_def pair_name_def lookup_pair_def load_cache_def save_cache_def
  create_embed_def image_path_def path_join_def path_exists_def IMAGES_FOLDER_def CACHE_FILE_def
  discord_File_def send_text_def send_embed_def fetch_message_def has_post_def edit_embed_def
  edit_attachments_def edit_post_def set_embed_def set_attachments_def track_post_def
  track_store_def track_prepare_def track_def on_message_def is_Exception_def message_key_def
  ticker_def refresh_message_def update_item_def amount_or_one_def update_crypto_prices_def
  command_def failing_at_def quiet_world_def tick_world_def two_items_def btc_item_def
  eth_item_def stale_embed_def answering_def

lemma parse_short: "parse_command ''!crypto BTC'' = Inl IndexError"
  by (simp add: parse_command_def py_eval)

lemma parse_btc:
  "parse_command ''!crypto btc usd 1 2.0'' = Inr (''BTC'', ''USD'', 1, Finite False (2 ^ 52) (- 51))"
  by (simp add: parse_command_def py_eval)

lemma parse_no_channel:
  "parse_command ''!crypto btc usd 99'' = Inr (''BTC'', ''USD'', 99, Finite False (2 ^ 52) (- 52))"
  by (simp add: parse_command_def py_eval)

lemma parse_eth:
  "parse_command ''!crypto ETH EUR 42 0.5'' = Inr (''ETH'', ''EUR'', 42, Finite False (2 ^ 52) (- 53))"
  by (simp add: parse_command_def py_eval)

lemma float_50000: "float_of_string ''50000.00'' = Inr (Finite False 6871947673600000 (- 37))"
  by (simp add: py_eval)

lemma float_minus_1_23: "float_of_string ''-1.23'' = Inr (Finite True 5539427541665710 (- 52))"
  by (simp add: py_eval)

lemma format_minus_1_23: "format_2f (Finite True 5539427541665710 (- 52)) = ''-1.23''"
  by (simp add: py_eval)

lemma format_50000: "format_2f (Finite False 6871947673600000 (- 37)) = ''50000.00''"
  by (simp add: py_eval)

lemma format_100000:
  "format_2f (fmul (Finite False 6871947673600000 (- 37)) (Finite False (2 ^ 52) (- 51))) = ''100000.00''"
  by (simp add: py_eval)

lemma format_25000:
  "format_2f (fmul (Finite False 6871947673600000 (- 37)) (Finite False (2 ^ 52) (- 53))) = ''25000.00''"
  by (simp add: py_eval)

lemma format_50000_times_one:
  "format_2f (fmul (Finite False 6871947673600000 (- 37)) (Finite False (2 ^ 52) (- 52))) = ''50000.00''"
  by (simp add: py_eval)

lemmas num_eval =
  parse_short parse_btc parse_no_channel parse_eth float_50000 float_minus_1_23
  format_minus_1_23 format_50000 format_100000 format_25000 format_50000_times_one

subsection \<open>on_message: the store on the error paths\<close>

lemma track_post_filesD:
  assumes "track_post cid symb fi em p w = (r, w')"
  shows "files w' = files w"
  using assms
  apply (auto simp: track_post_def split: sum.splits prod.splits if_splits dest: load_cache_filesD)
    apply (metis load_cache_filesD discord_File_filesD send_embed_filesD)+
  done

lemma track_prepare_filesD:
  assumes "track_prepare msg w = (r, w')"
  shows "files w' = files w"
  using assms
  apply (auto simp: track_prepare_def split: sum.splits prod.splits if_splits)
    apply (metis get_crypto_data_filesD send_text_filesD track_post_filesD)+
  done




lemma save_cache_filesD:
  assumes "save_cache cache w = (r, w')"
  shows "files w' = files w \<or> files w' = (files w)(CACHE_FILE \<mapsto> NotJson) \<or>
         r = Inr () \<and> files w' = (files w)(CACHE_FILE \<mapsto> written cache)"
  using assms by (auto simp: save_cache_def ext_call_def split: option.splits)

lemma track_store_filesD:
  assumes "track_store msg cid symb fi amt (cache, key, sid) w = (x, w')"
  shows "files w' = files w \<or> files w' = (files w)(CACHE_FILE \<mapsto> NotJson) \<or>
         (\<exists>items. cache = Dict items \<and>
            files w' = (files w)(CACHE_FILE \<mapsto> Doc (AList.update key
              \<lparr>message_id = sid, symbol = symb, fiat = fi, amount = Some amt, channel_id = cid\<rparr>
              items)))"
proof (cases cache)
  case (NonDict v)
  with assms show ?thesis by (simp add: track_store_def)
next
  case (Dict items)
  let ?c = "Dict (AList.update key
      \<lparr>message_id = sid, symbol = symb, fiat = fi, amount = Some amt, channel_id = cid\<rparr> items)"
  obtain r w1 where s: "save_cache ?c w = (r, w1)" by (cases "save_cache ?c w")
  have "files w' = files w1"
    using assms s Dict by (cases r) (auto simp: track_store_def dest: send_text_filesD)
  with save_cache_filesD [OF s] Dict show ?thesis by auto
qed

lemma on_message_after_post:
  assumes "track_prepare msg w = (Posted ((symb, fi, cid, amt), (cache, key, sid)), w1)"
  shows "files (snd (on_message msg w)) = files w \<or>
         files (snd (on_message msg w)) = (files w)(CACHE_FILE \<mapsto> NotJson) \<or>
         (\<exists>items. cache = Dict items \<and>
            files (snd (on_message msg w)) = (files w)(CACHE_FILE \<mapsto> Doc (AList.update key
              \<lparr>message_id = sid, symbol = symb, fiat = fi, amount = Some amt, channel_id = cid\<rparr>
              items)))"
proof -
  have f1: "files w1 = files w" using assms by (rule track_prepare_filesD)
  obtain x w2 where ts: "track_store msg cid symb fi amt (cache, key, sid) w1 = (x, w2)"
    by (cases "track_store msg cid symb fi amt (cache, key, sid) w1")
  have tr: "track msg w = (x, w2)" using assms ts by (simp add: track_def)
  have "files (snd (on_message msg w)) = files w2 \<or> files (snd (on_message msg w)) = files w"
    using tr send_text_files [of "msg_channel msg" _ w2]
    by (cases x) (auto simp: on_message_def)
  with track_store_filesD [OF ts] f1 show ?thesis by auto
qed

lemma on_message_before_post:
  assumes np: "\<forall>r. fst (track_prepare msg w) \<noteq> Posted r"
  shows "files (snd (on_message msg w)) = files w"
proof -
  obtain o1 w1 where tp: "track_prepare msg w = (o1, w1)" by (cases "track_prepare msg w")
  have f1: "files w1 = files w" using tp by (rule track_prepare_filesD)
  from np tp have o1: "o1 = Returned \<or> (\<exists>e. o1 = Raised e)" by (cases o1) auto
  then have tr: "track msg w = (Inr (), w1) \<or> (\<exists>e. track msg w = (Inl e, w1))"
    using tp by (auto simp: track_def)
  show ?thesis
    using tr f1 send_text_files
    by (auto simp: on_message_def)
qed









subsection \<open>update_crypto_prices: an item that fails is skipped\<close>

lemma update_items_append:
  "update_items (xs @ ys) w =
     (case update_items xs w of (Inl e, w') \<Rightarrow> (Inl e, w') | (Inr u, w') \<Rightarrow> update_items ys w')"
proof (induction xs arbitrary: w)
  case Nil
  then show ?case by simp
next
  case (Cons x xs)
  then show ?case by (cases "update_item x w") (auto split: sum.splits)
qed

lemma get_crypto_data_quiet:
  assumes "get_crypto_data symb fi w = (r, w')"
  shows "filter is_edit (trace w') = filter is_edit (trace w) \<and> posts w' = posts w"
  using assms by (auto simp: get_crypto_data_def ext_call_def split: option.splits)

lemma fetch_message_quiet:
  assumes "fetch_message ch mid w = (r, w')"
  shows "filter is_edit (trace w') = filter is_edit (trace w) \<and> posts w' = posts w"
  using assms by (auto simp: fetch_message_def ext_call_def split: option.splits if_splits)

lemma refresh_not_found:
  assumes "fst (fetch_message ch mid w) = Inl e"
  shows "refresh_message ch mid em p symb w = (Inl e, snd (fetch_message ch mid w))"
  using assms by (cases "fetch_message ch mid w") (simp add: refresh_message_def)

lemma skip_item:
  assumes "\<not> channels w1 (channel_id it) \<or>
       fst (get_crypto_data (symbol it) (fiat it) w1) = Inr JNull \<or>
       (\<exists>data w2 em p.
          get_crypto_data (symbol it) (fiat it) w1 = (Inr data, w2) \<and> data \<noteq> JNull \<and>
          create_embed (symbol it) (fiat it) data (amount_or_one it) w2 = Inr (em, p) \<and>
          fst (fetch_message (channel_id it) (message_id it) w2) = Inl NotFound)"
  shows "\<exists>w3. update_item (key, it) w1 = (Inr (), w3) \<and>
          filter is_edit (trace w3) = filter is_edit (trace w1) \<and> posts w3 = posts w1"
proof (cases "channels w1 (channel_id it)")
  case False
  then show ?thesis by (simp add: update_item_def)
next
  case True
  obtain r w2 where g: "get_crypto_data (symbol it) (fiat it) w1 = (r, w2)"
    by (cases "get_crypto_data (symbol it) (fiat it) w1")
  note q2 = get_crypto_data_quiet [OF g]
  show ?thesis
  proof (cases "r = Inr JNull")
    case True
    with \<open>channels w1 (channel_id it)\<close> g q2 show ?thesis by (simp add: update_item_def)
  next
    case False
    with assms True g obtain data em p where
      r: "r = Inr data" and d: "data \<noteq> JNull" and
      c: "create_embed (symbol it) (fiat it) data (amount_or_one it) w2 = Inr (em, p)" and
      f: "fst (fetch_message (channel_id it) (message_id it) w2) = Inl NotFound"
      by auto
    let ?w3 = "snd (fetch_message (channel_id it) (message_id it) w2)"
    have "fetch_message (channel_id it) (message_id it) w2 = (Inl NotFound, ?w3)"
      using f by (simp add: prod_eq_iff)
    note q3 = fetch_message_quiet [OF this]
    have "update_item (key, it) w1 = (Inr (), ?w3)"
      using True g r d c refresh_not_found [OF f] by (simp add: update_item_def)
    with q2 q3 show ?thesis by simp
  qed
qed

text \<open>
  C2. Take a tick whose store is \<open>before @ (key, it) # rest\<close>, and say the items of
  \<open>before\<close> were processed without an exception, leaving the world \<open>w1\<close>. If the item
  \<open>it\<close> fails in one of the three ways (its channel does not resolve; the fetch of its
  price returns \<^verbatim>\<open>None\<close>; its message is gone, so that \<^verbatim>\<open>fetch_message\<close> raises
  \<^verbatim>\<open>discord.NotFound\<close>), then its turn of the loop ends normally in a world \<open>w3\<close>, no
  call that edits a message was made in that turn and no message changed, and the tick
  goes on with the items of \<open>rest\<close> from \<open>w3\<close>.
\<close>

theorem tick_skips_failed_item:
  assumes "load_cache w0 = (Inr (Dict (before @ (key, it) # rest)), w)"
    and "update_items before w = (Inr (), w1)"
    and "\<not> channels w1 (channel_id it) \<or>
       fst (get_crypto_data (symbol it) (fiat it) w1) = Inr JNull \<or>
       (\<exists>data w2 em p.
          get_crypto_data (symbol it) (fiat it) w1 = (Inr data, w2) \<and> data \<noteq> JNull \<and>
          create_embed (symbol it) (fiat it) data (amount_or_one it) w2 = Inr (em, p) \<and>
          fst (fetch_message (channel_id it) (message_id it) w2) = Inl NotFound)"
  shows "\<exists>w3. update_item (key, it) w1 = (Inr (), w3) \<and>
          filter is_edit (trace w3) = filter is_edit (trace w1) \<and> posts w3 = posts w1 \<and>
          update_crypto_prices w0 = update_items rest w3"
proof -
  from skip_item [OF assms(3), of key] obtain w3 where
    u: "update_item (key, it) w1 = (Inr (), w3)" and
    q: "filter is_edit (trace w3) = filter is_edit (trace w1)" "posts w3 = posts w1"
    by blast
  have "update_crypto_prices w0 = update_items (before @ (key, it) # rest) w"
    using assms(1) by (simp add: update_crypto_prices_def)
  also have "\<dots> = update_items rest w3"
    using assms(2) u by (simp add: update_items_append)
  finally show ?thesis using u q by blast
qed

lemma tick_world_load:
  "load_cache tick_world =
     (Inr (Dict ([] @ (''1-BTC-USD-0'', btc_item) # [(''42-ETH-EUR-1'', eth_item)])),
      snd (load_cache tick_world))"
  by (simp add: prod_eq_iff load_cache_def ext_call_def tick_world_def quiet_world_def two_items_def
        CACHE_FILE_def)

lemma tick_world_fetch_77:
  "\<exists>data w2 em p.
      get_crypto_data (symbol btc_item) (fiat btc_item) (snd (load_cache tick_world)) = (Inr data, w2) \<and>
      data \<noteq> JNull \<and>
      create_embed (symbol btc_item) (fiat btc_item) data (amount_or_one btc_item) w2 = Inr (em, p) \<and>
      fst (fetch_message (channel_id btc_item) (message_id btc_item) w2) = Inl NotFound"
  by (simp add: io_eval num_eval)

lemma tick_world_result:
  "fst (update_crypto_prices tick_world) = Inr () \<and>
   filter is_edit (trace (snd (update_crypto_prices tick_world))) =
     [EditEmbed 42 78, EditAttachments 42 78]"
  by (simp add: io_eval num_eval)

theorem tick_skips_failed_item_witness:
  "channels (snd (load_cache tick_world)) (channel_id btc_item) \<and>
   fst (update_crypto_prices tick_world) = Inr () \<and>
   filter is_edit (trace (snd (update_crypto_prices tick_world))) =
     [EditEmbed 42 78, EditAttachments 42 78] \<and>
   (\<exists>w3. update_item (''1-BTC-USD-0'', btc_item) (snd (load_cache tick_world)) = (Inr (), w3) \<and>
         filter is_edit (trace w3) = [] \<and>
         update_crypto_prices tick_world = update_items [(''42-ETH-EUR-1'', eth_item)] w3)"
proof -
  have e: "update_items [] (snd (load_cache tick_world)) = (Inr (), snd (load_cache tick_world))"
    by simp
  have d: "\<not> channels (snd (load_cache tick_world)) (channel_id btc_item) \<or>
       fst (get_crypto_data (symbol btc_item) (fiat btc_item) (snd (load_cache tick_world))) = Inr JNull \<or>
       (\<exists>data w2 em p.
      get_crypto_data (symbol btc_item) (fiat btc_item) (snd (load_cache tick_world)) = (Inr data, w2) \<and>
      data \<noteq> JNull \<and>
      create_embed (symbol btc_item) (fiat btc_item) data (amount_or_one btc_item) w2 = Inr (em, p) \<and>
      fst (fetch_message (channel_id btc_item) (message_id btc_item) w2) = Inl NotFound)"
    using tick_world_fetch_77 by blast
  have t: "filter is_edit (trace (snd (load_cache tick_world))) = []"
    by (simp add: io_eval)
  have c: "channels (snd (load_cache tick_world)) (channel_id btc_item)"
    by (simp add: io_eval)
  from tick_skips_failed_item [OF tick_world_load e d] t c tick_world_result
  show ?thesis by auto
qed


lemma tick_unknown_channel:
  "\<not> channels (tick_world\<lparr>channels := (\<lambda>c. c = 42)\<rparr>) (channel_id btc_item) \<and>
   fst (update_crypto_prices (tick_world\<lparr>channels := (\<lambda>c. c = 42)\<rparr>)) = Inr () \<and>
   filter is_edit (trace (snd (update_crypto_prices (tick_world\<lparr>channels := (\<lambda>c. c = 42)\<rparr>)))) =
     [EditEmbed 42 78, EditAttachments 42 78]"
  by (simp add: io_eval num_eval)

lemma tick_absent_price:
  "fst (get_crypto_data ''BTC'' ''USD''
          (snd (load_cache (tick_world\<lparr>faults := (\<lambda>n. if n = 1 then Some RequestException else None)\<rparr>)))) =
     Inr JNull \<and>
   fst (update_crypto_prices
          (tick_world\<lparr>faults := (\<lambda>n. if n = 1 then Some RequestException else None)\<rparr>)) = Inr () \<and>
   filter is_edit (trace (snd (update_crypto_prices
          (tick_world\<lparr>faults := (\<lambda>n. if n = 1 then Some RequestException else None)\<rparr>)))) =
     [EditEmbed 42 78, EditAttachments 42 78]"
  by (simp add: io_eval num_eval)

subsection \<open>get_crypto_data\<close>






subsection \<open>The keys of the store\<close>

lemma digit_val_digit_char: "d < 10 \<Longrightarrow> digit_val (digit_char d) = d"
proof -
  assume "d < 10"
  then have "d \<in> {0, 1, 2, 3, 4, 5, 6, 7, 8, 9}" by auto
  then show ?thesis by (auto simp: digit_val_def digit_char_def)
qed

lemma is_digit_digit_char: "d < 10 \<Longrightarrow> is_digit (digit_char d)"
proof -
  assume "d < 10"
  then have "d \<in> {0, 1, 2, 3, 4, 5, 6, 7, 8, 9}" by auto
  then show ?thesis by (auto simp: is_digit_def digit_char_def)
qed

lemma nat_of_digits_snoc: "nat_of_digits (ds @ [c]) = 10 * nat_of_digits ds + digit_val c"
  by (simp add: nat_of_digits_def)

lemma nat_of_digits_str_nat: "nat_of_digits (str_nat n) = n"
proof (induction n rule: str_nat.induct)
  case (1 n)
  show ?case
  proof (cases "n < 10")
    case True
    then show ?thesis
      by (subst str_nat.simps) (simp add: nat_of_digits_def digit_val_digit_char)
  next
    case False
    with 1 have "nat_of_digits (str_nat (n div 10)) = n div 10" by simp
    with False show ?thesis
      by (subst str_nat.simps) (simp add: nat_of_digits_snoc digit_val_digit_char)
  qed
qed

lemma str_nat_inj: "str_nat n = str_nat m \<Longrightarrow> n = m"
  by (metis nat_of_digits_str_nat)

lemma str_nat_digits: "list_all is_digit (str_nat n)"
proof (induction n rule: str_nat.induct)
  case (1 n)
  show ?case
  proof (cases "n < 10")
    case True
    then show ?thesis by (subst str_nat.simps) (simp add: is_digit_digit_char)
  next
    case False
    with 1 have "list_all is_digit (str_nat (n div 10))" by simp
    with False show ?thesis by (subst str_nat.simps) (simp add: is_digit_digit_char)
  qed
qed


lemma str_nat_no_dash: "CHR ''-'' \<notin> set (str_nat n)"
proof
  assume "CHR ''-'' \<in> set (str_nat n)"
  with str_nat_digits [of n] have "is_digit CHR ''-''" by (simp add: list_all_iff)
  then show False by (simp add: is_digit_def)
qed

lemma last_segment:
  assumes "xs @ c # ds = ys @ c # es" and "c \<notin> set ds" and "c \<notin> set es"
  shows "ds = es"
proof -
  from assms(1) have "rev ds @ c # rev xs = rev es @ c # rev ys"
    by (metis rev.simps(2) rev_append append_assoc append_Cons append_Nil)
  moreover have "takeWhile (\<lambda>x. x \<noteq> c) (rev ds @ c # rev xs) = rev ds"
    using assms(2) by (auto simp: takeWhile_tail)
  moreover have "takeWhile (\<lambda>x. x \<noteq> c) (rev es @ c # rev ys) = rev es"
    using assms(3) by (auto simp: takeWhile_tail)
  ultimately have "rev ds = rev es" by simp
  then show ?thesis by simp
qed

lemma message_key_size:
  assumes "message_key cid symb fi n = message_key cid' symb' fi' m"
  shows "n = m"
proof -
  have "(str_int cid @ ''-'' @ symb @ ''-'' @ fi) @ CHR ''-'' # str_nat n =
        (str_int cid' @ ''-'' @ symb' @ ''-'' @ fi') @ CHR ''-'' # str_nat m"
    using assms by (simp add: message_key_def)
  then have "str_nat n = str_nat m"
    by (rule last_segment) (rule str_nat_no_dash)+
  then show ?thesis by (rule str_nat_inj)
qed

lemma keyed_from_keys:
  assumes "keyed_from n cache" and "k \<in> set (map fst cache)"
  shows "\<exists>cid symb fi i. n \<le> i \<and> i < n + length cache \<and> k = message_key cid symb fi i"
  using assms
proof (induction cache arbitrary: n)
  case Nil
  then show ?case by simp
next
  case (Cons kv rest)
  obtain k' it where kv: "kv = (k', it)" by (cases kv)
  show ?case
  proof (cases "k = k'")
    case True
    with Cons.prems kv have "k = message_key (channel_id it) (symbol it) (fiat it) n" by simp
    then show ?thesis
      by (intro exI [of _ "channel_id it"] exI [of _ "symbol it"] exI [of _ "fiat it"] exI [of _ n])
        simp
  next
    case False
    with Cons.prems kv have "keyed_from (Suc n) rest" "k \<in> set (map fst rest)" by auto
    from Cons.IH [OF this] obtain cid symb fi i where
      "Suc n \<le> i" "i < Suc n + length rest" "k = message_key cid symb fi i" by blast
    then show ?thesis by (intro exI [of _ cid] exI [of _ symb] exI [of _ fi] exI [of _ i]) simp
  qed
qed

lemma keyed_from_fresh:
  assumes "keyed_from n cache" and "n + length cache \<le> m"
  shows "message_key cid symb fi m \<notin> set (map fst cache)"
proof
  assume "message_key cid symb fi m \<in> set (map fst cache)"
  from keyed_from_keys [OF assms(1) this] obtain cid' symb' fi' i where
    "i < n + length cache" "message_key cid symb fi m = message_key cid' symb' fi' i" by blast
  with message_key_size [of cid symb fi m cid' symb' fi' i] assms(2) show False by simp
qed

lemma keyed_from_distinct: "keyed_from n cache \<Longrightarrow> distinct (map fst cache)"
proof (induction cache arbitrary: n)
  case Nil
  then show ?case by simp
next
  case (Cons kv rest)
  obtain k it where kv: "kv = (k, it)" by (cases kv)
  with Cons.prems have k: "k = message_key (channel_id it) (symbol it) (fiat it) n"
    and r: "keyed_from (Suc n) rest" by auto
  have "k \<notin> set (map fst rest)"
  proof
    assume "k \<in> set (map fst rest)"
    from keyed_from_keys [OF r this] obtain cid symb fi i where
      "Suc n \<le> i" "k = message_key cid symb fi i" by blast
    with k message_key_size [of "channel_id it" "symbol it" "fiat it" n cid symb fi i]
    show False by simp
  qed
  with Cons.IH [OF r] kv show ?case by simp
qed

lemma keyed_from_snoc:
  "keyed_from n (cache @ [(k, it)]) \<longleftrightarrow>
     keyed_from n cache \<and> k = message_key (channel_id it) (symbol it) (fiat it) (n + length cache)"
  by (induction cache arbitrary: n) auto

lemma update_fresh: "k \<notin> set (map fst cache) \<Longrightarrow> AList.update k v cache = cache @ [(k, v)]"
  by (induction cache) auto

lemma keyed_insert:
  assumes "keyed_from 0 cache"
  shows "keyed_from 0 (AList.update (message_key cid symb fi (length cache))
            \<lparr>message_id = sid, symbol = symb, fiat = fi, amount = a, channel_id = cid\<rparr> cache)"
proof -
  have "message_key cid symb fi (length cache) \<notin> set (map fst cache)"
    using assms by (rule keyed_from_fresh) simp
  then show ?thesis using assms by (simp add: update_fresh keyed_from_snoc)
qed

lemma load_cache_stored:
  assumes "load_cache w = (Inr (Dict items), w1)"
  shows "items = stored w"
  using assms
  by (auto simp: load_cache_def stored_def ext_call_def split: option.splits file_state.splits)

lemma track_post_result:
  assumes "track_post cid symb fi em p w = (Inr (Dict items, key, sid), w')"
  shows "items = stored w \<and> key = message_key cid symb fi (length items)"
  using assms
  by (auto simp: track_post_def split: sum.splits prod.splits if_splits dest: load_cache_stored)

lemma track_prepare_result:
  assumes "track_prepare msg w = (Posted ((symb, fi, cid, amt), (Dict items, key, sid)), w1)"
  shows "items = stored w \<and> key = message_key cid symb fi (length items)"
proof -
  from assms obtain data w0 em p where
    g: "get_crypto_data symb fi w = (Inr data, w0)" and
    t: "track_post cid symb fi em p w0 = (Inr (Dict items, key, sid), w1)"
    by (auto simp: track_prepare_def split: sum.splits prod.splits if_splits)
  from get_crypto_data_filesD [OF g] have "stored w0 = stored w" by (simp add: stored_def)
  with track_post_result [OF t] show ?thesis by simp
qed

lemma track_post_key:
  assumes "track_post cid symb fi em p w = (Inr (cache, key, sid), w')"
  shows "\<exists>n. py_len cache = Inr n \<and> key = message_key cid symb fi n"
  using assms
  by (auto simp: track_post_def split: sum.splits prod.splits if_splits)

lemma track_prepare_key:
  assumes "track_prepare msg w = (Posted ((symb, fi, cid, amt), (cache, key, sid)), w1)"
  shows "\<exists>n. py_len cache = Inr n \<and> key = message_key cid symb fi n"
proof -
  from assms obtain w0 em p where
    "track_post cid symb fi em p w0 = (Inr (cache, key, sid), w1)"
    by (auto simp: track_prepare_def split: sum.splits prod.splits if_splits)
  then show ?thesis by (rule track_post_key)
qed

lemma stored_upd_NotJson: "files w' = (files w)(CACHE_FILE \<mapsto> NotJson) \<Longrightarrow> stored w' = []"
  by (simp add: stored_def)

lemma stored_upd_Doc: "files w' = (files w)(CACHE_FILE \<mapsto> Doc c) \<Longrightarrow> stored w' = c"
  by (simp add: stored_def)

lemma stored_same: "files w' = files w \<Longrightarrow> stored w' = stored w"
  by (simp add: stored_def)

lemma on_message_step:
  assumes "keyed_from 0 (stored w)"
  shows "stored (snd (on_message msg w)) = stored w \<or> stored (snd (on_message msg w)) = [] \<or>
     (\<exists>key item.
        key = message_key (channel_id item) (symbol item) (fiat item) (length (stored w)) \<and>
        key \<notin> set (map fst (stored w)) \<and>
        stored (snd (on_message msg w)) = stored w @ [(key, item)])"
proof (cases "\<exists>r. fst (track_prepare msg w) = Posted r")
  case False
  then have "\<forall>r. fst (track_prepare msg w) \<noteq> Posted r" by blast
  then have "files (snd (on_message msg w)) = files w" by (rule on_message_before_post)
  then have "stored (snd (on_message msg w)) = stored w" by (rule stored_same)
  then show ?thesis by blast
next
  case True
  then obtain symb fi cid amt cache key sid where
    tp: "track_prepare msg w =
      (Posted ((symb, fi, cid, amt), (cache, key, sid)), snd (track_prepare msg w))"
    by (metis prod.collapse)
  let ?item = "\<lparr>message_id = sid, symbol = symb, fiat = fi, amount = Some amt, channel_id = cid\<rparr>"
  from on_message_after_post [OF tp] consider
    "files (snd (on_message msg w)) = files w" |
    "files (snd (on_message msg w)) = (files w)(CACHE_FILE \<mapsto> NotJson)" |
    items where "cache = Dict items"
      "files (snd (on_message msg w)) = (files w)(CACHE_FILE \<mapsto> Doc (AList.update key ?item items))"
    by blast
  then show ?thesis
  proof cases
    case 1
    then have "stored (snd (on_message msg w)) = stored w" by (rule stored_same)
    then show ?thesis by blast
  next
    case 2
    then have "stored (snd (on_message msg w)) = []" by (rule stored_upd_NotJson)
    then show ?thesis by blast
  next
    case 3
    from track_prepare_result [OF tp [unfolded 3(1)]] have
      i: "items = stored w" and k: "key = message_key cid symb fi (length items)" by simp_all
    have fresh: "key \<notin> set (map fst (stored w))"
      unfolding k i using assms by (intro keyed_from_fresh [of 0]) simp_all
    have "stored (snd (on_message msg w)) = AList.update key ?item items"
      using 3(2) by (rule stored_upd_Doc)
    then have "stored (snd (on_message msg w)) = AList.update key ?item (stored w)"
      using i by simp
    also have "\<dots> = stored w @ [(key, ?item)]" using fresh by (rule update_fresh)
    finally have "stored (snd (on_message msg w)) = stored w @ [(key, ?item)]" .
    moreover have "key = message_key (channel_id ?item) (symbol ?item) (fiat ?item) (length (stored w))"
      using k i by simp
    ultimately show ?thesis using fresh by blast
  qed
qed

lemma on_message_kept:
  assumes "keyed_from 0 (stored w)"
  shows "keyed_from 0 (stored (snd (on_message msg w)))"
  using on_message_step [OF assms, of msg] assms
  by (auto simp: keyed_from_snoc)

lemma run_kept: "keyed_from 0 (stored w) \<Longrightarrow> keyed_from 0 (stored (run evs w))"
proof (induction evs arbitrary: w)
  case Nil
  then show ?case by simp
next
  case (Cons ev evs)
  show ?case
  proof (cases ev)
    case (Message msg)
    with Cons.IH [OF on_message_kept [OF Cons.prems]] show ?thesis by simp
  next
    case Tick
    have "files (snd (update_crypto_prices w)) = files w"
      by (rule update_crypto_prices_filesD [of w "fst (update_crypto_prices w)"]) simp
    then have "stored (snd (update_crypto_prices w)) = stored w"
      by (rule stored_same)
    with Cons.IH [of "snd (update_crypto_prices w)"] Cons.prems Tick show ?thesis by simp
  qed
qed

text \<open>
  C8. Start from a store in which every key is the key of line 106 for its item and its
  position (the empty store, or no cache file, is such a store), and let any sequence of
  messages and ticks happen; nothing else removes or adds items. Then the store still is
  of that form and its keys are pairwise distinct. Whenever a track command has posted
  its first message, the key it has made is the key of line 106 for the channel, the
  symbol, the fiat and the size of what it has loaded; when that is a dict, it is the
  store, and the key is the key of no item already in it. Any further message leaves
  the store as it is, or leaves no store to read (a write that failed), or appends one
  item under a key that no item of the store has.
\<close>

theorem keys_unique:
  assumes "keyed_from 0 (stored w)"
  shows "keyed_from 0 (stored (run evs w)) \<and> distinct (map fst (stored (run evs w))) \<and>
     (\<forall>msg symb fi cid amt cache key sid w1.
        track_prepare msg (run evs w) = (Posted ((symb, fi, cid, amt), (cache, key, sid)), w1) \<longrightarrow>
          (\<exists>n. py_len cache = Inr n \<and> key = message_key cid symb fi n) \<and>
          (\<forall>items. cache = Dict items \<longrightarrow>
             items = stored (run evs w) \<and> key = message_key cid symb fi (length items) \<and>
             key \<notin> set (map fst items))) \<and>
     (\<forall>msg.
        stored (snd (on_message msg (run evs w))) = stored (run evs w) \<or>
        stored (snd (on_message msg (run evs w))) = [] \<or>
        (\<exists>key item.
           key = message_key (channel_id item) (symbol item) (fiat item) (length (stored (run evs w))) \<and>
           key \<notin> set (map fst (stored (run evs w))) \<and>
           stored (snd (on_message msg (run evs w))) = stored (run evs w) @ [(key, item)]))"
proof -
  have k: "keyed_from 0 (stored (run evs w))" using assms by (rule run_kept)
  then have d: "distinct (map fst (stored (run evs w)))" by (rule keyed_from_distinct)
  have p: "items = stored (run evs w) \<and> key = message_key cid symb fi (length items) \<and>
          key \<notin> set (map fst items)"
    if "track_prepare msg (run evs w) = (Posted ((symb, fi, cid, amt), (Dict items, key, sid)), w1)"
    for msg symb fi cid amt items key sid w1
  proof -
    from track_prepare_result [OF that] have
      c: "items = stored (run evs w)" and ky: "key = message_key cid symb fi (length items)"
      by simp_all
    from k c have "message_key cid symb fi (length items) \<notin> set (map fst items)"
      by (intro keyed_from_fresh [of 0]) simp_all
    with c ky show ?thesis by simp
  qed
  have q: "\<exists>n. py_len cache = Inr n \<and> key = message_key cid symb fi n"
    if "track_prepare msg (run evs w) = (Posted ((symb, fi, cid, amt), (cache, key, sid)), w1)"
    for msg symb fi cid amt cache key sid w1
    using that by (rule track_prepare_key)
  have s: "stored (snd (on_message msg (run evs w))) = stored (run evs w) \<or>
        stored (snd (on_message msg (run evs w))) = [] \<or>
        (\<exists>key item.
           key = message_key (channel_id item) (symbol item) (fiat item) (length (stored (run evs w))) \<and>
           key \<notin> set (map fst (stored (run evs w))) \<and>
           stored (snd (on_message msg (run evs w))) = stored (run evs w) @ [(key, item)])" for msg
    using k by (rule on_message_step)
  show ?thesis
  proof (intro conjI allI impI)
    show "keyed_from 0 (stored (run evs w))" by (rule k)
    show "distinct (map fst (stored (run evs w)))" by (rule d)
  next
    fix msg symb fi cid amt cache key sid w1
    assume "track_prepare msg (run evs w) = (Posted ((symb, fi, cid, amt), (cache, key, sid)), w1)"
    then show "\<exists>n. py_len cache = Inr n \<and> key = message_key cid symb fi n" by (rule q)
  next
    fix msg symb fi cid amt cache key sid w1 items
    assume "track_prepare msg (run evs w) = (Posted ((symb, fi, cid, amt), (cache, key, sid)), w1)"
      and "cache = Dict items"
    then have "track_prepare msg (run evs w) =
        (Posted ((symb, fi, cid, amt), (Dict items, key, sid)), w1)" by simp
    from p [OF this] show "items = stored (run evs w)"
      and "key = message_key cid symb fi (length items)" and "key \<notin> set (map fst items)"
      by blast+
  next
    fix msg
    show "stored (snd (on_message msg (run evs w))) = stored (run evs w) \<or>
        stored (snd (on_message msg (run evs w))) = [] \<or>
        (\<exists>key item.
           key = message_key (channel_id item) (symbol item) (fiat item) (length (stored (run evs w))) \<and>
           key \<notin> set (map fst (stored (run evs w))) \<and>
           stored (snd (on_message msg (run evs w))) = stored (run evs w) @ [(key, item)])"
      by (rule s)
  qed
qed

lemma run_two:
  "stored (run [Message (command ''!crypto btc usd 1 2.0''), Tick,
                Message (command ''!crypto ETH EUR 42 0.5'')] quiet_world) =
     [(''1-BTC-USD-0'',
       \<lparr>message_id = 1002, symbol = ''BTC'', fiat = ''USD'',
        amount = Some (Finite False (2 ^ 52) (- 51)), channel_id = 1\<rparr>),
      (''42-ETH-EUR-1'',
       \<lparr>message_id = 1015, symbol = ''ETH'', fiat = ''EUR'',
        amount = Some (Finite False (2 ^ 52) (- 53)), channel_id = 42\<rparr>)]"
  by (simp add: stored_def io_eval num_eval py_eval)

theorem keys_unique_witness:
  "keyed_from 0 (stored quiet_world) \<and>
   map fst (stored (run [Message (command ''!crypto btc usd 1 2.0''), Tick,
                Message (command ''!crypto ETH EUR 42 0.5'')] quiet_world)) =
     [''1-BTC-USD-0'', ''42-ETH-EUR-1''] \<and>
   distinct (map fst (stored (run [Message (command ''!crypto btc usd 1 2.0''), Tick,
                Message (command ''!crypto ETH EUR 42 0.5'')] quiet_world)))"
proof -
  let ?evs = "[Message (command ''!crypto btc usd 1 2.0''), Tick,
               Message (command ''!crypto ETH EUR 42 0.5'')]"
  have k0: "keyed_from 0 (stored quiet_world)"
    by (simp add: stored_def quiet_world_def CACHE_FILE_def)
  have m: "map fst (stored (run ?evs quiet_world)) = [''1-BTC-USD-0'', ''42-ETH-EUR-1'']"
    by (simp only: run_two) simp
  from keys_unique [OF k0, of ?evs]
  have d: "distinct (map fst (stored (run ?evs quiet_world)))" by blast
  from k0 m d show ?thesis by (intro conjI)
qed

subsection \<open>on_message: a track command\<close>

lemma get_crypto_data_world:
  assumes "get_crypto_data symb fi w = (r, w1)"
  shows "w1 = w\<lparr>clock := Suc (clock w), trace := trace w @ [HttpPost (pair_name symb fi)]\<rparr>"
  using assms by (auto simp: get_crypto_data_def ext_call_def split: option.splits)

lemma create_embed_path:
  assumes "create_embed symb fi data amt w = Inr (em, p)"
  shows "p = image_path symb"
  using assms by (auto simp: create_embed_def split: sum.splits)

lemma load_cache_ok:
  assumes "faults w (clock w) = None"
    and "files w CACHE_FILE = None \<or> (\<exists>items. files w CACHE_FILE = Some (Doc items))"
  shows "load_cache w =
     (Inr (Dict (stored w)),
      if files w CACHE_FILE = None then w
      else w\<lparr>clock := Suc (clock w), trace := trace w @ [OpenRead CACHE_FILE]\<rparr>)"
  using assms
  by (auto simp: load_cache_def stored_def ext_call_def split: option.splits file_state.splits)

text \<open>
  C6, as amended. The command word is \<^verbatim>\<open>!crypto\<close>. A message of another user that starts
  with it and whose arguments parse to a symbol, a fiat, a channel id and an amount
  creates an item and posts a first message, provided no call fails, the price is
  found and renders, the cache file is missing or holds a store (a JSON object of
  tracked items), the channel resolves and the image of the symbol exists:
  \<open>on_message\<close> returns normally, the cache file then holds the old store with the new
  item under the key of line 106, the item carries the id of the message sent, the
  symbol, the fiat, the amount and the channel id, and that message, the embed with the
  image attached, is in the channel.
\<close>

theorem track_command_creates_item:
  assumes a: "author msg \<noteq> client_user w"
    and s: "startswith (msg_content msg) ''!crypto''"
    and p: "parse_command (msg_content msg) = Inr (symb, fi, cid, amt)"
    and nf: "\<forall>n. faults w n = None"
    and g: "get_crypto_data symb fi w = (Inr data, w1)" and d: "data \<noteq> JNull"
    and c: "create_embed symb fi data amt w1 = Inr (em, path)"
    and f: "files w CACHE_FILE = None \<or> (\<exists>items. files w CACHE_FILE = Some (Doc items))"
    and ch: "channels w cid"
    and im: "path_exists w (image_path symb)"
  shows "\<exists>w' sid. on_message msg w = (Inr (), w') \<and>
           stored w' = AList.update (message_key cid symb fi (length (stored w)))
               \<lparr>message_id = sid, symbol = symb, fiat = fi, amount = Some amt, channel_id = cid\<rparr>
               (stored w) \<and>
           \<lparr>post_id = sid, post_channel = cid, body = Embedded em [symb @ ''.png'']\<rparr> \<in> set (posts w') \<and>
           files w' CACHE_FILE = Some (Doc (stored w'))"
proof -
  note w1 = get_crypto_data_world [OF g]
  have e1: "faults w1 = faults w" "files w1 = files w" "channels w1 = channels w"
    by (simp_all add: w1)
  have pth: "path = image_path symb" using c by (rule create_embed_path)
  define w2 where "w2 = (if files w CACHE_FILE = None then w1
      else w1\<lparr>clock := Suc (clock w1), trace := trace w1 @ [OpenRead CACHE_FILE]\<rparr>)"
  have l: "load_cache w1 = (Inr (Dict (stored w)), w2)"
    using load_cache_ok [of w1] nf f e1 by (simp add: stored_def w2_def)
  have e2: "faults w2 = faults w" "files w2 = files w" "channels w2 = channels w"
    by (simp_all add: w2_def e1)
  define sid where "sid = id_supply w2 (Suc (clock w2))"
  define key where "key = message_key cid symb fi (length (stored w))"
  obtain w3 where tp: "track_post cid symb fi em path w1 = (Inr (Dict (stored w), key, sid), w3)"
    and e3: "faults w3 = faults w" "files w3 = files w"
      "\<lparr>post_id = sid, post_channel = cid, body = Embedded em [symb @ ''.png'']\<rparr> \<in> set (posts w3)"
    using nf ch im e2
    by (simp add: track_post_def l pth discord_File_def path_exists_def ext_call_def
        send_embed_def sid_def key_def)
  let ?item = "\<lparr>message_id = sid, symbol = symb, fiat = fi, amount = Some amt, channel_id = cid\<rparr>"
  obtain w4 where ts: "track_store msg cid symb fi amt (Dict (stored w), key, sid) w3 = (Inr (), w4)"
    and e4: "files w4 CACHE_FILE = Some (Doc (AList.update key ?item (stored w)))"
      "\<lparr>post_id = sid, post_channel = cid, body = Embedded em [symb @ ''.png'']\<rparr> \<in> set (posts w4)"
    using nf e3
    by (simp add: track_store_def save_cache_def ext_call_def send_text_def)
  have "track_prepare msg w = (Posted ((symb, fi, cid, amt), (Dict (stored w), key, sid)), w3)"
    using p g d c tp by (simp add: track_prepare_def)
  then have "track msg w = (Inr (), w4)" using ts by (simp add: track_def)
  then have "on_message msg w = (Inr (), w4)" using a s by (simp add: on_message_def)
  moreover have "stored w4 = AList.update key ?item (stored w)"
    using e4(1) by (simp add: stored_def)
  ultimately show ?thesis using e4 unfolding key_def by auto
qed


lemma eth_fetch:
  "get_crypto_data ''ETH'' ''EUR'' quiet_world =
     (Inr (ticker ''50000.00'' ''-1.23''), snd (get_crypto_data ''ETH'' ''EUR'' quiet_world))"
  by (simp add: prod_eq_iff io_eval)

lemma eth_create_embed:
  "create_embed ''ETH'' ''EUR'' (ticker ''50000.00'' ''-1.23'') (Finite False (2 ^ 52) (- 53))
      (snd (get_crypto_data ''ETH'' ''EUR'' quiet_world)) = Inr (eth_embed, ''images/ETH.png'')"
  by (simp add: eth_embed_def io_eval num_eval py_eval)

lemma eth_result:
  "fst (on_message (command ''!crypto ETH EUR 42 0.5'') quiet_world) = Inr () \<and>
   stored (snd (on_message (command ''!crypto ETH EUR 42 0.5'') quiet_world)) =
     [(''42-ETH-EUR-0'',
       \<lparr>message_id = 1002, symbol = ''ETH'', fiat = ''EUR'',
        amount = Some (Finite False (2 ^ 52) (- 53)), channel_id = 42\<rparr>)] \<and>
   map post_channel (posts (snd (on_message (command ''!crypto ETH EUR 42 0.5'') quiet_world))) = [42, 5] \<and>
   map post_id (posts (snd (on_message (command ''!crypto ETH EUR 42 0.5'') quiet_world))) = [1002, 1005]"
  by (simp add: stored_def io_eval num_eval py_eval)

theorem track_command_creates_item_witness:
  "fst (on_message (command ''!crypto ETH EUR 42 0.5'') quiet_world) = Inr () \<and>
   stored quiet_world = [] \<and>
   stored (snd (on_message (command ''!crypto ETH EUR 42 0.5'') quiet_world)) =
     [(''42-ETH-EUR-0'',
       \<lparr>message_id = 1002, symbol = ''ETH'', fiat = ''EUR'',
        amount = Some (Finite False (2 ^ 52) (- 53)), channel_id = 42\<rparr>)] \<and>
   \<lparr>post_id = 1002, post_channel = 42, body = Embedded eth_embed [''ETH.png'']\<rparr>
     \<in> set (posts (snd (on_message (command ''!crypto ETH EUR 42 0.5'') quiet_world)))"
proof -
  let ?msg = "command ''!crypto ETH EUR 42 0.5''"
  have a: "author ?msg \<noteq> client_user quiet_world"
    by (simp add: command_def quiet_world_def)
  have s: "startswith (msg_content ?msg) ''!crypto''"
    by (simp add: command_def)
  have p: "parse_command (msg_content ?msg) = Inr (''ETH'', ''EUR'', 42, Finite False (2 ^ 52) (- 53))"
    by (simp add: command_def parse_eth)
  have nf: "\<forall>n. faults quiet_world n = None"
    by (simp add: quiet_world_def)
  have d: "ticker ''50000.00'' ''-1.23'' \<noteq> JNull"
    by (simp add: ticker_def)
  have f: "files quiet_world CACHE_FILE = None \<or>
      (\<exists>items. files quiet_world CACHE_FILE = Some (Doc items))"
    by (simp add: quiet_world_def CACHE_FILE_def)
  have ch: "channels quiet_world 42"
    by (simp add: quiet_world_def)
  have im: "path_exists quiet_world (image_path ''ETH'')"
    by (simp add: quiet_world_def path_exists_def image_path_def path_join_def IMAGES_FOLDER_def)
  have e: "stored quiet_world = []"
    by (simp add: stored_def quiet_world_def CACHE_FILE_def)
  from track_command_creates_item [OF a s p nf eth_fetch d eth_create_embed f ch im]
  obtain w' sid where
    r: "on_message ?msg quiet_world = (Inr (), w')" and
    st: "stored w' = AList.update (message_key 42 ''ETH'' ''EUR'' (length (stored quiet_world)))
           \<lparr>message_id = sid, symbol = ''ETH'', fiat = ''EUR'',
            amount = Some (Finite False (2 ^ 52) (- 53)), channel_id = 42\<rparr> (stored quiet_world)" and
    po: "\<lparr>post_id = sid, post_channel = 42, body = Embedded eth_embed [''ETH'' @ ''.png'']\<rparr>
           \<in> set (posts w')"
    by blast
  from r have w': "snd (on_message ?msg quiet_world) = w'" by simp
  note res = eth_result [unfolded w']
  from st res have "sid = 1002" by (simp add: e)
  with po have "\<lparr>post_id = 1002, post_channel = 42, body = Embedded eth_embed [''ETH.png'']\<rparr>
      \<in> set (posts w')" by simp
  with res e show ?thesis unfolding w' by (intro conjI) simp_all
qed

text \<open>
  C6 as stated fails on the command word: a message \<^verbatim>\<open>track ETH EUR 42 0.5\<close> does not
  start with \<^verbatim>\<open>!crypto\<close>, and \<open>on_message\<close> does nothing with it, in a world in which
  the same arguments after \<^verbatim>\<open>!crypto\<close> do create the item.
\<close>

theorem track_word_is_ignored:
  "on_message (command ''track ETH EUR 42 0.5'') quiet_world = (Inr (), quiet_world) \<and>
   stored quiet_world = [] \<and> posts quiet_world = []"
  by (simp add: on_message_def command_def quiet_world_def stored_def CACHE_FILE_def)

text \<open>
  Where the cache file holds a JSON value that is not an object, no item is created.
  On a list the first message is posted and line 110 then raises \<^verbatim>\<open>TypeError\<close>; on
  \<^verbatim>\<open>null\<close> line 106 raises it before anything is posted. The handler reports it.
\<close>

lemma track_on_other_cache:
  "map body (posts (snd (on_message (command ''!crypto ETH EUR 42 0.5'') (cache_holding (NArr []))))) =
     [Embedded eth_embed [''ETH.png''], Text (ErrorOccurred TypeError)] \<and>
   files (snd (on_message (command ''!crypto ETH EUR 42 0.5'') (cache_holding (NArr [])))) CACHE_FILE =
     Some (Other (NArr [])) \<and>
   map body (posts (snd (on_message (command ''!crypto ETH EUR 42 0.5'') (cache_holding NNull)))) =
     [Text (ErrorOccurred TypeError)] \<and>
   files (snd (on_message (command ''!crypto ETH EUR 42 0.5'') (cache_holding NNull))) CACHE_FILE =
     Some (Other NNull) \<and>
   fst (update_crypto_prices (cache_holding (NArr []))) = Inl AttributeError"
  by (simp add: cache_holding_def eth_embed_def io_eval num_eval py_eval)

subsection \<open>The image of a symbol\<close>

text \<open>
  C7 holds for \<open>create_embed\<close> and for the refresh, which test \<^verbatim>\<open>os.path.exists\<close> before
  they use the image, and fails for the first posting: line 109 builds
  \<^verbatim>\<open>discord.File(image_path)\<close> without that test. In the quiet world without its image
  files, the command \<^verbatim>\<open>!crypto btc usd 1\<close> ends in the handler: the only message sent is
  the reply that reports \<^verbatim>\<open>FileNotFoundError\<close>, no tracked message is posted and no
  store is written.
\<close>

theorem first_post_fails_without_image:
  "path_exists (no_images quiet_world) (image_path ''BTC'') = False \<and>
   fst (on_message (command ''!crypto btc usd 1'') (no_images quiet_world)) = Inr () \<and>
   posts (snd (on_message (command ''!crypto btc usd 1'') (no_images quiet_world))) =
     [\<lparr>post_id = 1001, post_channel = 5, body = Text (ErrorOccurred FileNotFoundError)\<rparr>] \<and>
   files (snd (on_message (command ''!crypto btc usd 1'') (no_images quiet_world))) CACHE_FILE = None"
  by (simp add: no_images_def io_eval num_eval py_eval parse_command_def)

text \<open>The refresh of an existing message without the image: the embed is edited.\<close>

lemma refresh_without_image:
  "fst (update_crypto_prices (no_images tick_world)) = Inr () \<and>
   filter is_edit (trace (snd (update_crypto_prices (no_images tick_world)))) = [EditEmbed 42 78] \<and>
   map (\<lambda>p. case body p of Embedded em atts \<Rightarrow> (thumbnail em, map snd (embed_fields em)))
     (posts (snd (update_crypto_prices (no_images tick_world)))) =
     [(None, [''EUR 50000.00'', ''-1.23%'', ''EUR 50000.00''])]"
  by (simp add: no_images_def io_eval num_eval py_eval)

subsection \<open>create_embed\<close>




lemma round_half_even_nearest:
  assumes "0 < q"
  shows "2 * \<bar>int (round_half_even p q) * int q - int p\<bar> \<le> int q"
proof -
  have p: "int p = int q * int (p div q) + int (p mod q)"
    by (metis mult_div_mod_eq of_nat_add of_nat_mult)
  have r: "int (p mod q) < int q" using assms by simp
  show ?thesis
    using r unfolding round_half_even_def
    by (auto simp: p algebra_simps abs_if)
qed

lemma nat_of_digits_app2:
  "nat_of_digits (ds @ [a, b]) = 100 * nat_of_digits ds + 10 * digit_val a + digit_val b"
  by (simp add: nat_of_digits_def)

lemma filter_digits: "list_all is_digit ds \<Longrightarrow> filter is_digit ds = ds"
  by (simp add: list_all_iff)

lemma not_digit: "\<not> is_digit CHR ''-''" "\<not> is_digit CHR ''.''"
  by (simp_all add: is_digit_def)

lemma filter_format:
  "filter is_digit (format_2f (Finite s m e)) =
      str_nat (hundredths m e div 100) @
      [digit_char (hundredths m e mod 100 div 10), digit_char (hundredths m e mod 10)]"
proof -
  let ?h = "hundredths m e"
  have a: "is_digit (digit_char (?h mod 100 div 10))" by (rule is_digit_digit_char) simp
  have b: "is_digit (digit_char (?h mod 10))" by (rule is_digit_digit_char) simp
  have s: "filter is_digit (sign_str s) = []" by (simp add: sign_str_def not_digit)
  have d: "filter is_digit (str_nat (?h div 100)) = str_nat (?h div 100)"
    by (rule filter_digits) (rule str_nat_digits)
  show ?thesis
    by (simp only: format_2f.simps filter_append s d filter.simps a b not_digit if_True if_False
        append_Nil append_Cons)
qed

lemma three_parts: "100 * (n div 100) + 10 * (n mod 100 div 10) + n mod 10 = (n::nat)"
proof -
  have "n mod 100 mod 10 = n mod 10" by (simp add: mod_mod_cancel)
  then have "n mod 100 = 10 * (n mod 100 div 10) + n mod 10"
    by (metis mult_div_mod_eq)
  moreover have "n = 100 * (n div 100) + n mod 100" by simp
  ultimately show ?thesis by linarith
qed

lemma format_2f_reads_back:
  "nat_of_digits (filter is_digit (format_2f (Finite s m e))) = hundredths m e"
proof -
  let ?h = "hundredths m e"
  have "nat_of_digits (filter is_digit (format_2f (Finite s m e))) =
      100 * (?h div 100) + 10 * (?h mod 100 div 10) + ?h mod 10"
    by (simp only: filter_format nat_of_digits_app2 nat_of_digits_str_nat)
       (simp add: digit_val_digit_char)
  also have "\<dots> = ?h" by (rule three_parts)
  finally show ?thesis .
qed

lemma hundredths_nearest:
  "2 * \<bar>int (hundredths m e) * int (snd (scaled (m * 100) 1 (- e))) - int (fst (scaled (m * 100) 1 (- e)))\<bar>
     \<le> int (snd (scaled (m * 100) 1 (- e)))"
  unfolding hundredths_def
  by (rule round_half_even_nearest) (simp add: scaled_def)




lemma scenario_tick:
  "fst (update_crypto_prices btc_world) = Inr () \<and>
   map (\<lambda>p. (post_id p, post_channel p,
              case body p of Embedded em atts \<Rightarrow> (title em, embed_fields em)))
     (posts (snd (update_crypto_prices btc_world))) =
     [(77, 1, ''BTC Price in USD'',
       [(CurrentPrice, ''USD 50000.00''), (Change24h, ''-1.23%''),
        (ValueOf (Finite False (2 ^ 52) (- 51)) ''BTC'', ''USD 100000.00'')])]"
  by (simp add: btc_world_def btc_store_def io_eval num_eval py_eval)

end
